theory Spec2Isabelle
  imports Main
begin

section \<open>Go values used by the program\<close>

text \<open>
  A Go \<^verbatim>\<open>error\<close> variable holds an interface value that may be nil: it is an
  \<open>error option\<close>, with \<open>None\<close> for nil. Every error of the program is made by
  \<^verbatim>\<open>errors.New\<close> or \<^verbatim>\<open>fmt.Errorf\<close>, so an error is its message.
\<close>

datatype error = New string

fun Error :: "error \<Rightarrow> string" where
  "Error (New s) = s"

text \<open>\<^verbatim>\<open>fmt.Errorf("%w: %w", a, b)\<close>\<close>

definition Errorf_w_w :: "error \<Rightarrow> error \<Rightarrow> error" where
  "Errorf_w_w a b = New (Error a @ '': '' @ Error b)"

text \<open>\<^verbatim>\<open>fmt.Errorf("%s required to create poem", key)\<close>\<close>

definition Errorf_required :: "string \<Rightarrow> error" where
  "Errorf_required key = New (key @ '' required to create poem'')"

text \<open>The values passed as \<^verbatim>\<open>...any\<close> to the logger.\<close>

datatype any = Str string | Err error | Struct "(string \<times> string) list"

text \<open>
  The panics the program can raise: a method call on a nil interface value, and
  net/http's "invalid WriteHeader code" with the code.
\<close>

datatype panic = NilDereference | InvalidWriteHeaderCode int

section \<open>The part of net/http the program calls\<close>

text \<open>
  \<^verbatim>\<open>http.ResponseWriter\<close> is an interface; the model is the writer the net/http
  server hands to a handler. \<open>Header\<close> is the map the handler mutates.

  \<^verbatim>\<open>WriteHeader(code)\<close>: once the status line is out, a further call is ignored
  (net/http logs a superfluous call; counted in \<open>superfluous\<close>). Otherwise a code
  below 100 or above 999 panics. A code from 100 to 199 other than 101 is sent at once as
  an interim response with the current headers less Content-Length and
  Transfer-Encoding (\<open>interim\<close>), and the final status line is still to come. Any
  other code is the final status line, sent with the headers as they are at that moment
  (\<open>sentHeader\<close>); later changes of \<open>Header\<close> are not sent.

  \<^verbatim>\<open>Write(b)\<close>: sends status 200 first when no final status line is out. Writing
  nothing succeeds. When the status allows no body (1xx, 204, 304) nothing is written
  and the error is \<^verbatim>\<open>ErrBodyNotAllowed\<close>. Otherwise the bytes are appended to the body.

  Outside the model: the request is not a HEAD request, the connection takes every byte
  and is not hijacked, and no Content-Length is declared (no function of the repository
  sets one, and \<^verbatim>\<open>http.Error\<close> deletes it).
\<close>

record ResponseWriter =
  Header :: "string \<rightharpoonup> string"
  wroteHeader :: bool
  status :: int
  sentHeader :: "string \<rightharpoonup> string"
  body :: string
  superfluous :: nat
  interim :: "(int \<times> (string \<rightharpoonup> string)) list"

definition NewResponseWriter :: ResponseWriter where
  "NewResponseWriter =
     \<lparr>Header = Map.empty, wroteHeader = False, status = 0, sentHeader = Map.empty,
      body = [], superfluous = 0, interim = []\<rparr>"

definition StatusSwitchingProtocols :: int where "StatusSwitchingProtocols = 101"
definition StatusOK :: int where "StatusOK = 200"
definition StatusCreated :: int where "StatusCreated = 201"
definition StatusNoContent :: int where "StatusNoContent = 204"
definition StatusNotModified :: int where "StatusNotModified = 304"
definition StatusBadRequest :: int where "StatusBadRequest = 400"
definition StatusNotFound :: int where "StatusNotFound = 404"
definition StatusInternalServerError :: int where "StatusInternalServerError = 500"

definition ErrBodyNotAllowed :: error where
  "ErrBodyNotAllowed = New ''http: request method or response status code does not allow body''"

definition Header_Set :: "string \<Rightarrow> string \<Rightarrow> ResponseWriter \<Rightarrow> ResponseWriter" where
  "Header_Set k v w = w\<lparr>Header := (Header w)(k \<mapsto> v)\<rparr>"

definition Header_Del :: "string \<Rightarrow> ResponseWriter \<Rightarrow> ResponseWriter" where
  "Header_Del k w = w\<lparr>Header := (Header w)(k := None)\<rparr>"

definition bodyAllowedForStatus :: "int \<Rightarrow> bool" where
  "bodyAllowedForStatus st =
     (if 100 \<le> st \<and> st \<le> 199 then False
      else if st = StatusNoContent then False
      else if st = StatusNotModified then False
      else True)"

definition WriteHeader :: "int \<Rightarrow> ResponseWriter \<Rightarrow> panic + ResponseWriter" where
  "WriteHeader code w =
     (if wroteHeader w then Inr (w\<lparr>superfluous := superfluous w + 1\<rparr>)
      else if code < 100 \<or> code > 999 then Inl (InvalidWriteHeaderCode code)
      else if 100 \<le> code \<and> code \<le> 199 \<and> code \<noteq> StatusSwitchingProtocols
      then Inr (w\<lparr>interim := interim w @
                  [(code, (Header w)(''Content-Length'' := None, ''Transfer-Encoding'' := None))]\<rparr>)
      else Inr (w\<lparr>wroteHeader := True, status := code, sentHeader := Header w\<rparr>))"

definition Write :: "string \<Rightarrow> ResponseWriter \<Rightarrow> panic + (ResponseWriter \<times> error option)" where
  "Write b w =
     (case (if wroteHeader w then Inr w else WriteHeader StatusOK w) of
        Inl p \<Rightarrow> Inl p
      | Inr w' \<Rightarrow>
          (if b = [] then Inr (w', None)
           else if \<not> bodyAllowedForStatus (status w') then Inr (w', Some ErrBodyNotAllowed)
           else Inr (w'\<lparr>body := body w' @ b\<rparr>, None)))"

text \<open>
  \<^verbatim>\<open>http.Error(w, error, code)\<close>: drops Content-Length, sets the plain-text content
  type and nosniff, writes the status, then prints the message and a newline
  (\<^verbatim>\<open>fmt.Fprintln\<close>, whose error is dropped).
\<close>

definition http_Error :: "ResponseWriter \<Rightarrow> string \<Rightarrow> int \<Rightarrow> panic + ResponseWriter" where
  "http_Error w msg code =
     (case WriteHeader code
             (Header_Set ''X-Content-Type-Options'' ''nosniff''
               (Header_Set ''Content-Type'' ''text/plain; charset=utf-8''
                 (Header_Del ''Content-Length'' w))) of
        Inl p \<Rightarrow> Inl p
      | Inr w' \<Rightarrow>
          (case Write (msg @ ''\<newline>'') w' of
             Inl p \<Rightarrow> Inl p
           | Inr (w'', err) \<Rightarrow> Inr w''))"

text \<open>
  A request, as far as the program reads it: the body and the path values the router
  matched. \<^verbatim>\<open>PathValue\<close> is the empty string for a name that did not match.
\<close>

record Request =
  Body :: string
  PathValues :: "string \<rightharpoonup> string"

definition PathValue :: "Request \<Rightarrow> string \<Rightarrow> string" where
  "PathValue r key = (case PathValues r key of None \<Rightarrow> [] | Some v \<Rightarrow> v)"

text \<open>
  \<^verbatim>\<open>json.NewEncoder(w).Encode(data)\<close> marshals first and returns the marshalling
  error without writing; otherwise it writes the encoding and a newline and returns the
  error of that write. The marshaller of the output type is a parameter, \<open>Inl\<close> its
  error.
\<close>

definition json_Encode ::
  "('o \<Rightarrow> error + string) \<Rightarrow> ResponseWriter \<Rightarrow> 'o
     \<Rightarrow> panic + (ResponseWriter \<times> error option)" where
  "json_Encode marshal w data =
     (case marshal data of
        Inl err \<Rightarrow> Inr (w, Some err)
      | Inr b \<Rightarrow> Write (b @ ''\<newline>'') w)"

section \<open>Package gwu\<close>

definition ErrDecodeRequest :: error where
  "ErrDecodeRequest = New ''failed to decode request''"

definition ErrEncodeResponse :: error where
  "ErrEncodeResponse = New ''failed to encode response''"

text \<open>
  The logger is a capability acting on the world \<open>'w\<close> the handlers run in (the
  store, the log sink, the random source).
\<close>

record 'w Logger =
  Debug :: "string \<Rightarrow> any list \<Rightarrow> 'w \<Rightarrow> 'w"
  Info :: "string \<Rightarrow> any list \<Rightarrow> 'w \<Rightarrow> 'w"

definition IntoJSON ::
  "('o \<Rightarrow> error + string) \<Rightarrow> ResponseWriter \<Rightarrow> 'w Logger option \<Rightarrow> 'o \<Rightarrow> int \<Rightarrow> 'w
     \<Rightarrow> panic + (ResponseWriter \<times> 'w)" where
  "IntoJSON marshal w log data statusCode world =
     (case WriteHeader statusCode (Header_Set ''Content-Type'' ''application/json'' w) of
        Inl p \<Rightarrow> Inl p
      | Inr w2 \<Rightarrow>
          (case json_Encode marshal w2 data of
             Inl p \<Rightarrow> Inl p
           | Inr (w3, None) \<Rightarrow> Inr (w3, world)
           | Inr (w3, Some err) \<Rightarrow>
               (case log of
                  None \<Rightarrow> Inl NilDereference
                | Some l \<Rightarrow>
                    (case http_Error w3 (Error ErrEncodeResponse) StatusInternalServerError of
                       Inl p \<Rightarrow> Inl p
                     | Inr w4 \<Rightarrow>
                         Inr (w4, Info l (Error (Errorf_w_w ErrEncodeResponse err)) [] world)))))"

record 'w HandleOpts =
  Log :: "'w Logger option"

type_synonym 'w HandleOptsFunc = "'w HandleOpts \<Rightarrow> 'w HandleOpts"

text \<open>The option function \<^verbatim>\<open>gwu.Log\<close> (the field of \<open>HandleOpts\<close> has the name).\<close>

definition LogOpt :: "'w Logger option \<Rightarrow> 'w HandleOptsFunc" where
  "LogOpt log opt = opt\<lparr>Log := log\<rparr>"

text \<open>
  \<^verbatim>\<open>CnIn\<close> returns the value and the error; \<^verbatim>\<open>Exec\<close> returns output, status code
  and error, and may change the world or panic. The context argument is left out: no
  function of the repository reads it.
\<close>

type_synonym ('i, 'w) CnIn = "Request \<Rightarrow> 'w HandleOpts \<Rightarrow> 'i \<times> error option"

type_synonym ('i, 'o, 'w) Exec =
  "'i \<Rightarrow> 'w HandleOpts \<Rightarrow> 'w \<Rightarrow> panic + (('o \<times> int \<times> error option) \<times> 'w)"

text \<open>
  \<^verbatim>\<open>JSON[In]()\<close>. The decoder of type In is a parameter: it returns the value it
  filled in (from the zero value) and the library's error.
\<close>

definition JSON :: "(string \<Rightarrow> 'i \<times> error option) \<Rightarrow> ('i, 'w) CnIn" where
  "JSON decode r opts =
     (case decode (Body r) of
        (inp, Some err) \<Rightarrow> (inp, Some ErrDecodeRequest)
      | (inp, None) \<Rightarrow> (inp, None))"

definition PathVal :: "string \<Rightarrow> (string, 'w) CnIn" where
  "PathVal key r opts = (PathValue r key, None)"

definition Empty :: "(unit, 'w) CnIn" where
  "Empty r opts = ((), None)"

text \<open>\<^verbatim>\<open>ValIn\<close>; \<open>out\<close> is the zero value of the output type (\<^verbatim>\<open>var out Out\<close>).\<close>

definition ValIn ::
  "'o \<Rightarrow> ('i, 'o, 'w) Exec \<Rightarrow> ('i \<Rightarrow> error option) \<Rightarrow> ('i, 'o, 'w) Exec" where
  "ValIn out fn fnVal inp opts world =
     (case fnVal inp of
        Some err \<Rightarrow> Inr ((out, StatusBadRequest, Some err), world)
      | None \<Rightarrow> fn inp opts world)"

text \<open>
  The options \<^verbatim>\<open>Handle\<close> builds before it returns the handler: the option functions
  in order, then the default logger \<open>dflt\<close> (slog's text handler on standard error)
  when none was set.
\<close>

definition Handle_opts :: "'w Logger \<Rightarrow> 'w HandleOptsFunc list \<Rightarrow> 'w HandleOpts" where
  "Handle_opts dflt optFns =
     (let opts = foldl (\<lambda>opts fn. fn opts) \<lparr>Log = None\<rparr> optFns
      in case Log opts of None \<Rightarrow> opts\<lparr>Log := Some dflt\<rparr> | Some l \<Rightarrow> opts)"

definition Handle ::
  "'w Logger \<Rightarrow> ('o \<Rightarrow> error + string) \<Rightarrow> ('i, 'w) CnIn \<Rightarrow> ('i, 'o, 'w) Exec
     \<Rightarrow> 'w HandleOptsFunc list \<Rightarrow> ResponseWriter \<Rightarrow> Request \<Rightarrow> 'w
     \<Rightarrow> panic + (ResponseWriter \<times> 'w)" where
  "Handle dflt marshal inFn fn optFns w r world =
     (let opts = Handle_opts dflt optFns
      in case inFn r opts of
           (inp, Some err) \<Rightarrow>
             (case http_Error w (Error err) StatusBadRequest of
                Inl p \<Rightarrow> Inl p
              | Inr w' \<Rightarrow> Inr (w', world))
         | (inp, None) \<Rightarrow>
             (case fn inp opts world of
                Inl p \<Rightarrow> Inl p
              | Inr ((out, code, Some err), world') \<Rightarrow>
                  (case http_Error w (Error err) code of
                     Inl p \<Rightarrow> Inl p
                   | Inr w' \<Rightarrow> Inr (w', world'))
              | Inr ((out, code, None), world') \<Rightarrow>
                  IntoJSON marshal w (Log opts) out code world'))"

section \<open>Example: the poem service\<close>

text \<open>\<^verbatim>\<open>math/rand\<close>: the global source is the sequence of numbers it will still
  produce; \<^verbatim>\<open>rand.Intn(n)\<close> takes the next one, reduced below \<open>n\<close>.\<close>

type_synonym rand_source = "nat \<Rightarrow> nat"

definition rand_Intn :: "nat \<Rightarrow> rand_source \<Rightarrow> nat \<times> rand_source" where
  "rand_Intn n g = (g 0 mod n, \<lambda>i. g (Suc i))"

definition IDCharset :: string where
  "IDCharset = ''abcdefghijklmnopqrstuvwxyzABCDEFGHIJKLMNOPQRSTUVWXYZ0123456789''"

definition IDLength :: nat where
  "IDLength = 10"

definition ErrNotFound :: error where
  "ErrNotFound = New ''poem(s) do(es) not exist''"

definition ErrAuthorNotFound :: error where
  "ErrAuthorNotFound = New ''the requested author does not exist''"

definition ErrCouldNotCreate :: error where
  "ErrCouldNotCreate = New ''internal error: could not create''"

definition errNotFound :: error where
  "errNotFound = New ''not found - internally''"

definition errDuplicate :: error where
  "errDuplicate = New ''duplicate poem - internally''"

type_synonym ID = string

text \<open>\<^verbatim>\<open>NewID\<close>: the loop over the indices of \<open>b\<close>, then the function.\<close>

fun NewID_loop :: "nat list \<Rightarrow> string \<Rightarrow> rand_source \<Rightarrow> string \<times> rand_source" where
  "NewID_loop [] b g = (b, g)"
| "NewID_loop (i # is) b g =
     (case rand_Intn (length IDCharset) g of
        (k, g') \<Rightarrow> NewID_loop is (b[i := IDCharset ! k]) g')"

definition NewID :: "rand_source \<Rightarrow> ID \<times> rand_source" where
  "NewID g = NewID_loop [0..<IDLength] (replicate IDLength (CHR 0x00)) g"

definition IDIn :: "string \<Rightarrow> (ID, 'w) CnIn" where
  "IDIn key r opts = (PathValue r key, None)"

record Poem =
  ID :: ID
  Name :: string
  Author :: string
  Text :: string

text \<open>The zero value of \<^verbatim>\<open>Poem\<close>.\<close>

definition Poem_zero :: Poem where
  "Poem_zero = \<lparr>ID = [], Name = [], Author = [], Text = []\<rparr>"

definition ValidateToCreate :: "Poem \<Rightarrow> error option" where
  "ValidateToCreate p =
     (if Name p = [] then Some (Errorf_required ''name'')
      else if Author p = [] then Some (Errorf_required ''author'')
      else if Text p = [] then Some (Errorf_required ''text'')
      else None)"

text \<open>
  The store. Requests are taken one at a time, so the mutex is left out: every method
  holds it from entry to return.
\<close>

record Store =
  poems :: "ID \<rightharpoonup> Poem"

definition Store_mock :: "Store \<Rightarrow> Store" where
  "Store_mock s =
     s\<lparr>poems := (poems s)
       (''1234567890'' \<mapsto>
          \<lparr>ID = ''1234567890'', Name = ''The Raven'', Author = ''Edgar Allan Poe'',
           Text = ''Once upon a midnight dreary, while I pondered, weak and weary,\<newline>Over many a quaint and curious volume of forgotten lore''
             @ [CHR 0xE2, CHR 0x80, CHR 0x94]
             @ ''\<newline>While I nodded, nearly napping, suddenly there came a tapping,\<newline>As of some one gently rapping, rapping at my chamber door.\<newline>''
             @ [CHR 0xE2, CHR 0x80, CHR 0x9C, CHR 0xE2, CHR 0x80, CHR 0x99]
             @ ''Tis some visitor,'' @ [CHR 0xE2, CHR 0x80, CHR 0x9D]
             @ '' I muttered, '' @ [CHR 0xE2, CHR 0x80, CHR 0x9C]
             @ ''tapping at my chamber door'' @ [CHR 0xE2, CHR 0x80, CHR 0x94]
             @ ''\<newline>Only this and nothing more.'' @ [CHR 0xE2, CHR 0x80, CHR 0x9D]\<rparr>,
        ''abc123defx'' \<mapsto>
          \<lparr>ID = ''abc123defx'', Name = ''The Road Not Taken'', Author = ''Robert Frost'',
           Text = ''Two roads diverged in a yellow wood,\<newline>And sorry I could not travel both\<newline>And be one traveler, long I stood\<newline>And looked down one as far as I could\<newline>To where it bent in the undergrowth;''\<rparr>,
        ''abcdefghij'' \<mapsto>
          \<lparr>ID = ''abcdefghi'', Name = ''Der Erlk'' @ [CHR 0xC3, CHR 0xB6] @ ''nig'',
           Author = ''Goethe'',
           Text = ''Wer reitet so sp'' @ [CHR 0xC3, CHR 0xA4]
             @ ''t durch Nacht und Wind?\<newline>Es ist der Vater mit seinem Kind;\<newline>Er hat den Knaben wohl in dem Arm,\<newline>Er fa''
             @ [CHR 0xC3, CHR 0x9F] @ ''t ihn sicher, er h'' @ [CHR 0xC3, CHR 0xA4]
             @ ''lt ihn warm.''\<rparr>,
        ''isjzB57elf'' \<mapsto>
          \<lparr>ID = ''isjzB57elf'', Name = ''Der Zauberlehrling'', Author = ''Goethe'',
           Text = ''Hat der alte Hexenmeister\<newline>Sich doch einmal wegbegeben!\<newline>Und nun sollen seine Geister\<newline>Auch nach meinem Willen leben.''\<rparr>)\<rparr>"

definition NewStore :: Store where
  "NewStore = Store_mock \<lparr>poems = Map.empty\<rparr>"

definition Store_Poem :: "Store \<Rightarrow> ID \<Rightarrow> Poem \<times> error option" where
  "Store_Poem s k =
     (case poems s k of
        None \<Rightarrow> (Poem_zero, Some errNotFound)
      | Some poem \<Rightarrow> (poem, None))"

text \<open>
  \<^verbatim>\<open>range\<close> over a Go map visits every entry once, in an order the runtime picks.
  The order is the key list \<open>ks\<close>; \<open>range_order m ks\<close> says that it is one the
  runtime can pick for the map \<open>m\<close>.
\<close>

definition range_order :: "('k \<rightharpoonup> 'v) \<Rightarrow> 'k list \<Rightarrow> bool" where
  "range_order m ks = (distinct ks \<and> set ks = dom m)"

fun PoemsByAuthor_loop :: "(ID \<rightharpoonup> Poem) \<Rightarrow> string \<Rightarrow> ID list \<Rightarrow> Poem list \<Rightarrow> Poem list" where
  "PoemsByAuthor_loop m author [] ps = ps"
| "PoemsByAuthor_loop m author (k # ks) ps =
     (case m k of
        None \<Rightarrow> PoemsByAuthor_loop m author ks ps
      | Some poem \<Rightarrow>
          (if Author poem = author then PoemsByAuthor_loop m author ks (ps @ [poem])
           else PoemsByAuthor_loop m author ks ps))"

definition Store_PoemsByAuthor :: "ID list \<Rightarrow> Store \<Rightarrow> string \<Rightarrow> Poem list" where
  "Store_PoemsByAuthor ks s author = PoemsByAuthor_loop (poems s) author ks []"

definition Store_Add :: "Store \<Rightarrow> Poem \<Rightarrow> error option \<times> Store" where
  "Store_Add s poem =
     (case poems s (ID poem) of
        Some p \<Rightarrow> (Some errDuplicate, s)
      | None \<Rightarrow> (None, s\<lparr>poems := (poems s)(ID poem \<mapsto> poem)\<rparr>))"

fun All_loop :: "(ID \<rightharpoonup> Poem) \<Rightarrow> ID list \<Rightarrow> Poem list \<Rightarrow> Poem list" where
  "All_loop m [] ps = ps"
| "All_loop m (k # ks) ps =
     (case m k of
        None \<Rightarrow> All_loop m ks ps
      | Some poem \<Rightarrow> All_loop m ks (ps @ [poem]))"

definition Store_All :: "ID list \<Rightarrow> Store \<Rightarrow> Poem list" where
  "Store_All ks s = All_loop (poems s) ks []"

text \<open>
  The world the handlers of the service run in: the controller's store, what the
  logger has written to standard error, and the random source.
\<close>

datatype Level = LevelDebug | LevelInfo

record LogRecord =
  level :: Level
  msg :: string
  attrs :: "any list"

record World =
  store :: Store
  stderr :: "LogRecord list"
  rand :: rand_source

text \<open>
  A slog text logger on standard error: \<open>lowest\<close> is the handler's level (Info when
  no option is given), \<open>with\<close> the attributes added by \<^verbatim>\<open>log.With\<close>.
\<close>

definition slog_Logger :: "Level \<Rightarrow> any list \<Rightarrow> World Logger" where
  "slog_Logger lowest with =
     \<lparr>Debug = (\<lambda>m args world.
        case lowest of
          LevelDebug \<Rightarrow>
            world\<lparr>stderr := stderr world @ [\<lparr>level = LevelDebug, msg = m, attrs = with @ args\<rparr>]\<rparr>
        | LevelInfo \<Rightarrow> world),
      Info = (\<lambda>m args world.
        world\<lparr>stderr := stderr world @ [\<lparr>level = LevelInfo, msg = m, attrs = with @ args\<rparr>]\<rparr>)\<rparr>"

text \<open>\<^verbatim>\<open>opts.Log.Debug(msg, args...)\<close>\<close>

definition Log_Debug :: "'w HandleOpts \<Rightarrow> string \<Rightarrow> any list \<Rightarrow> 'w \<Rightarrow> panic + 'w" where
  "Log_Debug opts m args world =
     (case Log opts of
        None \<Rightarrow> Inl NilDereference
      | Some l \<Rightarrow> Inr (Debug l m args world))"

definition any_Poem :: "Poem \<Rightarrow> any" where
  "any_Poem p =
     Struct [(''ID'', ID p), (''Name'', Name p), (''Author'', Author p), (''Text'', Text p)]"

definition PoemController_Create :: "(Poem, Poem, World) Exec" where
  "PoemController_Create poem opts world =
     (case NewID (rand world) of
        (newid, g) \<Rightarrow>
          (let poem = poem\<lparr>ID := newid\<rparr>;
               world = world\<lparr>rand := g\<rparr>
           in case Store_Add (store world) poem of
                (Some err, s) \<Rightarrow>
                  (case Log_Debug opts ''could not create poem''
                          [Str ''error'', Err err, Str ''poem'', any_Poem poem]
                          (world\<lparr>store := s\<rparr>) of
                     Inl p \<Rightarrow> Inl p
                   | Inr world' \<Rightarrow>
                       Inr ((poem, StatusInternalServerError, Some ErrCouldNotCreate), world'))
              | (None, s) \<Rightarrow> Inr ((poem, StatusCreated, None), world\<lparr>store := s\<rparr>)))"

definition PoemController_ByID :: "(ID, Poem, World) Exec" where
  "PoemController_ByID k opts world =
     (case Store_Poem (store world) k of
        (poem, Some err) \<Rightarrow>
          (case Log_Debug opts ''requested non-existent poem'' [Str ''id'', Str k] world of
             Inl p \<Rightarrow> Inl p
           | Inr world' \<Rightarrow> Inr ((poem, StatusNotFound, Some ErrNotFound), world'))
      | (poem, None) \<Rightarrow> Inr ((poem, StatusOK, None), world))"

definition PoemController_All :: "ID list \<Rightarrow> (unit, Poem list, World) Exec" where
  "PoemController_All ks u opts world =
     Inr ((Store_All ks (store world), StatusOK, None), world)"

definition PoemController_ByAuthor :: "ID list \<Rightarrow> (string, Poem list, World) Exec" where
  "PoemController_ByAuthor ks author opts world =
     (let ps = Store_PoemsByAuthor ks (store world) author
      in if length ps = 0
         then (case Log_Debug opts ''no poems found for author'' [Str ''author'', Str author]
                      world of
                 Inl p \<Rightarrow> Inl p
               | Inr world' \<Rightarrow> Inr (([], StatusNotFound, Some ErrAuthorNotFound), world'))
         else Inr ((ps, StatusOK, None), world))"

text \<open>
  The four routes of \<^verbatim>\<open>main\<close>. The JSON library's encoders of a poem and of a
  list of poems (\<open>enc\<close>, \<open>encs\<close>: marshalling strings cannot fail) and its decoder
  of a poem (\<open>decode\<close>) are parameters, as is the order \<open>ks\<close> in which
  \<^verbatim>\<open>range\<close> visits the store during the request.
\<close>

definition main_log :: "string \<Rightarrow> string \<Rightarrow> World HandleOptsFunc" where
  "main_log method route =
     LogOpt (Some (slog_Logger LevelDebug [Str ''method'', Str method, Str ''route'', Str route]))"

definition GET_poem_id ::
  "(Poem \<Rightarrow> string) \<Rightarrow> ResponseWriter \<Rightarrow> Request \<Rightarrow> World \<Rightarrow> panic + (ResponseWriter \<times> World)" where
  "GET_poem_id enc =
     Handle (slog_Logger LevelInfo []) (\<lambda>p. Inr (enc p)) (IDIn ''id'') PoemController_ByID
       [main_log ''GET'' ''/poem/{id}'']"

definition GET_poems ::
  "(Poem list \<Rightarrow> string) \<Rightarrow> ID list \<Rightarrow> ResponseWriter \<Rightarrow> Request \<Rightarrow> World
     \<Rightarrow> panic + (ResponseWriter \<times> World)" where
  "GET_poems encs ks =
     Handle (slog_Logger LevelInfo []) (\<lambda>ps. Inr (encs ps)) Empty (PoemController_All ks)
       [main_log ''GET'' ''/poems'']"

definition POST_poem ::
  "(Poem \<Rightarrow> string) \<Rightarrow> (string \<Rightarrow> Poem \<times> error option) \<Rightarrow> ResponseWriter \<Rightarrow> Request \<Rightarrow> World
     \<Rightarrow> panic + (ResponseWriter \<times> World)" where
  "POST_poem enc decode =
     Handle (slog_Logger LevelInfo []) (\<lambda>p. Inr (enc p)) (JSON decode)
       (ValIn Poem_zero PoemController_Create ValidateToCreate)
       [main_log ''POST'' ''/poem'']"

definition GET_poems_author ::
  "(Poem list \<Rightarrow> string) \<Rightarrow> ID list \<Rightarrow> ResponseWriter \<Rightarrow> Request \<Rightarrow> World
     \<Rightarrow> panic + (ResponseWriter \<times> World)" where
  "GET_poems_author encs ks =
     Handle (slog_Logger LevelInfo []) (\<lambda>ps. Inr (encs ps)) (PathVal ''author'')
       (PoemController_ByAuthor ks)
       [main_log ''GET'' ''/poems/author/{author}'']"

text \<open>
  The stores the service can reach: it starts from \<^verbatim>\<open>NewStore\<close>, and \<^verbatim>\<open>Store.Add\<close> is
  the only method that writes. \<open>Store_Adds s ps\<close> is the store after the calls
  \<^verbatim>\<open>Add(p)\<close> for the poems of \<open>ps\<close> in order, accepted or rejected.
\<close>

fun Store_Adds :: "Store \<Rightarrow> Poem list \<Rightarrow> Store" where
  "Store_Adds s [] = s"
| "Store_Adds s (p # ps) = Store_Adds (snd (Store_Add s p)) ps"

inductive reachable :: "Store \<Rightarrow> bool" where
  start: "reachable NewStore"
| add: "reachable s \<Longrightarrow> reachable (snd (Store_Add s poem))"

section \<open>Responses\<close>

text \<open>
  What a new writer holds after \<^verbatim>\<open>http.Error\<close> with the given status and message,
  and after one JSON encoding with the given status.
\<close>

abbreviation plain_text_response :: "int \<Rightarrow> string \<Rightarrow> ResponseWriter" where
  "plain_text_response code m \<equiv>
     \<lparr>Header = [''Content-Type'' \<mapsto> ''text/plain; charset=utf-8'',
                ''X-Content-Type-Options'' \<mapsto> ''nosniff''],
      wroteHeader = True, status = code,
      sentHeader = [''Content-Type'' \<mapsto> ''text/plain; charset=utf-8'',
                    ''X-Content-Type-Options'' \<mapsto> ''nosniff''],
      body = m @ ''\<newline>'', superfluous = 0, interim = []\<rparr>"

abbreviation json_response :: "int \<Rightarrow> string \<Rightarrow> ResponseWriter" where
  "json_response code b \<equiv>
     \<lparr>Header = [''Content-Type'' \<mapsto> ''application/json''],
      wroteHeader = True, status = code,
      sentHeader = [''Content-Type'' \<mapsto> ''application/json''],
      body = b @ ''\<newline>'', superfluous = 0, interim = []\<rparr>"

section \<open>The pipeline\<close>

lemma http_Error_New:
  assumes "200 \<le> code" and "code \<le> 999" and "code \<noteq> 204" and "code \<noteq> 304"
  shows "http_Error NewResponseWriter m code = Inr (plain_text_response code m)"
  using assms
  by (simp add: http_Error_def Write_def WriteHeader_def Header_Set_def Header_Del_def
      NewResponseWriter_def bodyAllowedForStatus_def StatusSwitchingProtocols_def
      StatusNoContent_def StatusNotModified_def)

lemma http_Error_invalid_code:
  assumes "code < 100 \<or> 999 < code"
  shows "http_Error NewResponseWriter m code = Inl (InvalidWriteHeaderCode code)"
  using assms
  by (auto simp add: http_Error_def WriteHeader_def Header_Set_def Header_Del_def
      NewResponseWriter_def)

lemma http_Error_interim:
  assumes "100 \<le> code" and "code \<le> 199" and "code \<noteq> 101"
  shows "http_Error NewResponseWriter m code =
           Inr ((plain_text_response 200 m)
                  \<lparr>interim := [(code, [''Content-Type'' \<mapsto> ''text/plain; charset=utf-8'',
                                        ''X-Content-Type-Options'' \<mapsto> ''nosniff''])]\<rparr>)"
  using assms
  by (simp add: http_Error_def Write_def WriteHeader_def Header_Set_def Header_Del_def
      NewResponseWriter_def bodyAllowedForStatus_def StatusSwitchingProtocols_def
      StatusNoContent_def StatusNotModified_def StatusOK_def fun_upd_twist)

lemma http_Error_no_body:
  assumes "code = 101 \<or> code = 204 \<or> code = 304"
  shows "http_Error NewResponseWriter m code =
           Inr ((plain_text_response code m)\<lparr>body := []\<rparr>)"
  using assms
  by (auto simp add: http_Error_def Write_def WriteHeader_def Header_Set_def Header_Del_def
      NewResponseWriter_def bodyAllowedForStatus_def StatusSwitchingProtocols_def
      StatusNoContent_def StatusNotModified_def)

lemma Handle_opts_Log: "\<exists>l. Log (Handle_opts dflt optFns) = Some l"
  by (simp add: Handle_opts_def Let_def split: option.split)

lemma Handle_inFn_error:
  assumes "inFn r (Handle_opts dflt optFns) = (inp, Some err)"
  shows "Handle dflt marshal inFn fn optFns w r world =
           (case http_Error w (Error err) StatusBadRequest of
              Inl p \<Rightarrow> Inl p
            | Inr w' \<Rightarrow> Inr (w', world))"
  using assms by (simp add: Handle_def)

lemma Handle_fn_error:
  assumes "inFn r (Handle_opts dflt optFns) = (inp, None)"
    and "fn inp (Handle_opts dflt optFns) world = Inr ((out, code, Some err), world')"
  shows "Handle dflt marshal inFn fn optFns w r world =
           (case http_Error w (Error err) code of
              Inl p \<Rightarrow> Inl p
            | Inr w' \<Rightarrow> Inr (w', world'))"
  using assms by (simp add: Handle_def)

lemma Handle_fn_ok:
  assumes "inFn r (Handle_opts dflt optFns) = (inp, None)"
    and "fn inp (Handle_opts dflt optFns) world = Inr ((out, code, None), world')"
  shows "Handle dflt marshal inFn fn optFns w r world =
           IntoJSON marshal w (Log (Handle_opts dflt optFns)) out code world'"
  using assms by (simp add: Handle_def)

lemma IntoJSON_encoded:
  assumes "marshal data = Inr b"
    and "200 \<le> code" and "code \<le> 999" and "code \<noteq> 204" and "code \<noteq> 304"
  shows "IntoJSON marshal NewResponseWriter log data code world =
           Inr (json_response code b, world)"
  using assms
  by (simp add: IntoJSON_def json_Encode_def Write_def WriteHeader_def Header_Set_def
      NewResponseWriter_def bodyAllowedForStatus_def StatusSwitchingProtocols_def
      StatusNoContent_def StatusNotModified_def)

lemma IntoJSON_encode_failed:
  assumes "marshal data = Inl err"
    and "200 \<le> code" and "code \<le> 999" and "code \<noteq> 204" and "code \<noteq> 304"
  shows "IntoJSON marshal NewResponseWriter (Some l) data code world =
           Inr (\<lparr>Header = [''Content-Type'' \<mapsto> ''text/plain; charset=utf-8'',
                            ''X-Content-Type-Options'' \<mapsto> ''nosniff''],
                  wroteHeader = True, status = code,
                  sentHeader = [''Content-Type'' \<mapsto> ''application/json''],
                  body = ''failed to encode response\<newline>'', superfluous = 1,
                  interim = []\<rparr>,
                Info l (''failed to encode response: '' @ Error err) [] world)"
  using assms
  by (simp add: IntoJSON_def json_Encode_def http_Error_def Write_def WriteHeader_def
      Header_Set_def Header_Del_def NewResponseWriter_def ErrEncodeResponse_def Errorf_w_w_def
      bodyAllowedForStatus_def StatusSwitchingProtocols_def StatusNoContent_def
      StatusNotModified_def)

text \<open>
  C8. When the decoder returns an error, the handler answers on a new writer with status
  400 and the error's text as the body (\<^verbatim>\<open>http.Error\<close> ends it with a newline), as
  plain text, with one status line. The world is as before and the answer depends on
  neither \<open>fn\<close> nor \<open>marshal\<close>: the business logic is not run and nothing is
  encoded.
\<close>

theorem Handle_decoder_error:
  assumes "inFn r (Handle_opts dflt optFns) = (inp, Some err)"
  shows "Handle dflt marshal inFn fn optFns NewResponseWriter r world =
           Inr (plain_text_response 400 (Error err), world)"
  using assms by (simp add: Handle_inFn_error http_Error_New StatusBadRequest_def)

theorem Handle_decoder_error_witness:
  "Handle (slog_Logger LevelInfo []) (\<lambda>p. Inr (Name p))
      (JSON (\<lambda>b. (Poem_zero, Some (New ''unexpected end of JSON input''))))
      PoemController_Create [] NewResponseWriter \<lparr>Body = ''{'', PathValues = Map.empty\<rparr>
      \<lparr>store = NewStore, stderr = [], rand = (\<lambda>i. 0)\<rparr> =
   Inr (plain_text_response 400 ''failed to decode request'',
        \<lparr>store = NewStore, stderr = [], rand = (\<lambda>i. 0)\<rparr>)"
  using Handle_decoder_error [of "JSON (\<lambda>b. (Poem_zero, Some (New ''unexpected end of JSON input'')))"
      "\<lparr>Body = ''{'', PathValues = Map.empty\<rparr>" "slog_Logger LevelInfo []" "[]" Poem_zero
      ErrDecodeRequest]
  by (simp add: JSON_def ErrDecodeRequest_def)

text \<open>
  C9, amended. When the decoder succeeds and the business logic returns an error with a
  status \<open>code\<close> from 200 to 999 other than 204 and 304, the handler answers with
  exactly that status and the error's text as the body (ended with a newline), as plain
  text; \<open>marshal\<close> does not occur in the answer, so no JSON is written. The world is
  the one the business logic left.
\<close>

theorem Handle_exec_error:
  assumes "inFn r (Handle_opts dflt optFns) = (inp, None)"
    and "fn inp (Handle_opts dflt optFns) world = Inr ((out, code, Some err), world')"
    and "200 \<le> code" and "code \<le> 999" and "code \<noteq> 204" and "code \<noteq> 304"
  shows "Handle dflt marshal inFn fn optFns NewResponseWriter r world =
           Inr (plain_text_response code (Error err), world')"
  using assms by (simp add: Handle_fn_error http_Error_New)

text \<open>
  C9 as stated fails for the other codes. With the code 0 that a business-logic function
  returns when it sets none, \<^verbatim>\<open>WriteHeader\<close> panics and nothing is answered; with 204
  the status is sent but net/http refuses the body; with 103 the code goes out as an
  interim response and the final status is the 200 of the first write.
\<close>

theorem Handle_exec_error_counterexample:
  "Handle (slog_Logger LevelInfo []) (\<lambda>p. Inr (Name p)) (IDIn ''id'')
      (\<lambda>k opts world. Inr ((Poem_zero, 0, Some (New ''boom'')), world)) []
      NewResponseWriter \<lparr>Body = [], PathValues = Map.empty\<rparr>
      \<lparr>store = NewStore, stderr = [], rand = (\<lambda>i. 0)\<rparr> =
     Inl (InvalidWriteHeaderCode 0) \<and>
   Handle (slog_Logger LevelInfo []) (\<lambda>p. Inr (Name p)) (IDIn ''id'')
      (\<lambda>k opts world. Inr ((Poem_zero, 204, Some (New ''boom'')), world)) []
      NewResponseWriter \<lparr>Body = [], PathValues = Map.empty\<rparr>
      \<lparr>store = NewStore, stderr = [], rand = (\<lambda>i. 0)\<rparr> =
     Inr (\<lparr>Header = [''Content-Type'' \<mapsto> ''text/plain; charset=utf-8'',
                      ''X-Content-Type-Options'' \<mapsto> ''nosniff''],
            wroteHeader = True, status = 204,
            sentHeader = [''Content-Type'' \<mapsto> ''text/plain; charset=utf-8'',
                          ''X-Content-Type-Options'' \<mapsto> ''nosniff''],
            body = [], superfluous = 0, interim = []\<rparr>,
          \<lparr>store = NewStore, stderr = [], rand = (\<lambda>i. 0)\<rparr>) \<and>
   Handle (slog_Logger LevelInfo []) (\<lambda>p. Inr (Name p)) (IDIn ''id'')
      (\<lambda>k opts world. Inr ((Poem_zero, 103, Some (New ''boom'')), world)) []
      NewResponseWriter \<lparr>Body = [], PathValues = Map.empty\<rparr>
      \<lparr>store = NewStore, stderr = [], rand = (\<lambda>i. 0)\<rparr> =
     Inr (\<lparr>Header = [''Content-Type'' \<mapsto> ''text/plain; charset=utf-8'',
                      ''X-Content-Type-Options'' \<mapsto> ''nosniff''],
            wroteHeader = True, status = 200,
            sentHeader = [''Content-Type'' \<mapsto> ''text/plain; charset=utf-8'',
                          ''X-Content-Type-Options'' \<mapsto> ''nosniff''],
            body = ''boom\<newline>'', superfluous = 0,
            interim = [(103, [''Content-Type'' \<mapsto> ''text/plain; charset=utf-8'',
                              ''X-Content-Type-Options'' \<mapsto> ''nosniff''])]\<rparr>,
          \<lparr>store = NewStore, stderr = [], rand = (\<lambda>i. 0)\<rparr>)"
  by (simp add: Handle_def IDIn_def http_Error_invalid_code http_Error_no_body
      http_Error_interim)

theorem Handle_exec_error_witness:
  "Handle (slog_Logger LevelInfo []) (\<lambda>p. Inr (Name p)) (IDIn ''id'') PoemController_ByID
      [main_log ''GET'' ''/poem/{id}''] NewResponseWriter
      \<lparr>Body = [], PathValues = [''id'' \<mapsto> ''nosuchpoem'']\<rparr>
      \<lparr>store = \<lparr>poems = Map.empty\<rparr>, stderr = [], rand = (\<lambda>i. 0)\<rparr> =
   Inr (plain_text_response 404 ''poem(s) do(es) not exist'',
        \<lparr>store = \<lparr>poems = Map.empty\<rparr>,
         stderr = [\<lparr>level = LevelDebug, msg = ''requested non-existent poem'',
                    attrs = [Str ''method'', Str ''GET'', Str ''route'', Str ''/poem/{id}'',
                             Str ''id'', Str ''nosuchpoem'']\<rparr>],
         rand = (\<lambda>i. 0)\<rparr>)"
  using Handle_exec_error [of "IDIn ''id''"
      "\<lparr>Body = [], PathValues = [''id'' \<mapsto> ''nosuchpoem'']\<rparr>" "slog_Logger LevelInfo []"
      "[main_log ''GET'' ''/poem/{id}'']" "''nosuchpoem''" PoemController_ByID
      "\<lparr>store = \<lparr>poems = Map.empty\<rparr>, stderr = [], rand = (\<lambda>i. 0)\<rparr>"
      Poem_zero 404 ErrNotFound]
  by (simp add: IDIn_def PathValue_def PoemController_ByID_def Store_Poem_def Log_Debug_def
      Handle_opts_def main_log_def LogOpt_def slog_Logger_def StatusNotFound_def
      ErrNotFound_def)

text \<open>
  C10. Whatever error the JSON library reports for the body, the decoder \<^verbatim>\<open>JSON\<close>
  returns the sentinel \<open>ErrDecodeRequest\<close>, and the handler built on it answers 400
  with the constant text "failed to decode request" (and the newline): the library's
  error \<open>e\<close> does not occur in the answer.
\<close>

theorem JSON_sentinel:
  assumes "decode (Body r) = (inp, Some e)"
  shows "JSON decode r opts = (inp, Some ErrDecodeRequest) \<and>
         Handle dflt marshal (JSON decode) fn optFns NewResponseWriter r world =
           Inr (plain_text_response 400 ''failed to decode request'', world)"
  using assms
  by (simp add: JSON_def Handle_inFn_error [where inp = inp and err = ErrDecodeRequest]
      http_Error_New StatusBadRequest_def ErrDecodeRequest_def)

theorem JSON_sentinel_witness:
  "JSON (\<lambda>b. (Poem_zero, if b = ''{}'' then None else Some (New (''invalid character: '' @ b))))
       \<lparr>Body = ''secret'', PathValues = Map.empty\<rparr> (Handle_opts (slog_Logger LevelInfo []) []) =
     (Poem_zero, Some ErrDecodeRequest) \<and>
   Handle (slog_Logger LevelInfo []) (\<lambda>p. Inr (Name p))
       (JSON (\<lambda>b. (Poem_zero, if b = ''{}'' then None else Some (New (''invalid character: '' @ b)))))
       PoemController_Create [] NewResponseWriter \<lparr>Body = ''secret'', PathValues = Map.empty\<rparr>
       \<lparr>store = NewStore, stderr = [], rand = (\<lambda>i. 0)\<rparr> =
     Inr (plain_text_response 400 ''failed to decode request'',
          \<lparr>store = NewStore, stderr = [], rand = (\<lambda>i. 0)\<rparr>)"
  using JSON_sentinel [of
      "\<lambda>b. (Poem_zero, if b = ''{}'' then None else Some (New (''invalid character: '' @ b)))"
      "\<lparr>Body = ''secret'', PathValues = Map.empty\<rparr>" Poem_zero
      "New ''invalid character: secret''" "Handle_opts (slog_Logger LevelInfo []) []"
      "slog_Logger LevelInfo []" "\<lambda>p. Inr (Name p)" PoemController_Create "[]"
      "\<lparr>store = NewStore, stderr = [], rand = (\<lambda>i. 0)\<rparr>"]
  by simp

section \<open>Validation\<close>

lemma POST_poem_invalid:
  assumes "decode (Body r) = (p, None)" and "ValidateToCreate p = Some err"
  shows "POST_poem enc decode NewResponseWriter r world =
           Inr (plain_text_response 400 (Error err), world)"
  using assms
  by (simp add: POST_poem_def JSON_def ValIn_def http_Error_New StatusBadRequest_def
      Handle_fn_error [where inp = p and out = Poem_zero and code = 400 and err = err
        and world' = world])

lemma ValidateToCreate_error_iff:
  "ValidateToCreate p \<noteq> None \<longleftrightarrow> Name p = [] \<or> Author p = [] \<or> Text p = []"
  by (simp add: ValidateToCreate_def)

text \<open>
  C5. When the validation function returns an error, \<^verbatim>\<open>ValIn\<close> returns the zero
  output, status 400 and that error, with the world unchanged and whatever \<open>fn\<close> is:
  the business logic is not run. When validation succeeds, the result is the result of
  \<open>fn\<close>. For the service: a poem that fails \<open>ValidateToCreate\<close> is answered by
  POST /poem with 400 and the validation error, and the world (the store in it) is
  unchanged.
\<close>

theorem ValIn_validates_first:
  "(fnVal inp = Some err \<longrightarrow>
      ValIn out fn fnVal inp opts world = Inr ((out, 400, Some err), world)) \<and>
   (fnVal inp = None \<longrightarrow> ValIn out fn fnVal inp opts world = fn inp opts world) \<and>
   (decode (Body r) = (p, None) \<and> ValidateToCreate p = Some verr \<longrightarrow>
      POST_poem enc decode NewResponseWriter r w =
        Inr (plain_text_response 400 (Error verr), w))"
  by (simp add: ValIn_def StatusBadRequest_def POST_poem_invalid)

theorem ValIn_validates_first_witness:
  "ValIn Poem_zero PoemController_Create ValidateToCreate
       \<lparr>ID = [], Name = [], Author = ''Goethe'', Text = ''Wer reitet''\<rparr>
       (Handle_opts (slog_Logger LevelInfo []) [])
       \<lparr>store = NewStore, stderr = [], rand = (\<lambda>i. 0)\<rparr> =
     Inr ((Poem_zero, 400, Some (New ''name required to create poem'')),
          \<lparr>store = NewStore, stderr = [], rand = (\<lambda>i. 0)\<rparr>) \<and>
   ValIn Poem_zero PoemController_Create ValidateToCreate
       \<lparr>ID = [], Name = ''Erlkoenig'', Author = ''Goethe'', Text = ''Wer reitet''\<rparr>
       (Handle_opts (slog_Logger LevelInfo []) [])
       \<lparr>store = NewStore, stderr = [], rand = (\<lambda>i. 0)\<rparr> =
     PoemController_Create
       \<lparr>ID = [], Name = ''Erlkoenig'', Author = ''Goethe'', Text = ''Wer reitet''\<rparr>
       (Handle_opts (slog_Logger LevelInfo []) [])
       \<lparr>store = NewStore, stderr = [], rand = (\<lambda>i. 0)\<rparr> \<and>
   POST_poem Name (\<lambda>b. (\<lparr>ID = [], Name = ''Erlkoenig'', Author = ''Goethe'', Text = b\<rparr>, None))
       NewResponseWriter \<lparr>Body = [], PathValues = Map.empty\<rparr>
       \<lparr>store = NewStore, stderr = [], rand = (\<lambda>i. 0)\<rparr> =
     Inr (plain_text_response 400 ''text required to create poem'',
          \<lparr>store = NewStore, stderr = [], rand = (\<lambda>i. 0)\<rparr>)"
  using
    ValIn_validates_first [of ValidateToCreate
      "\<lparr>ID = [], Name = [], Author = ''Goethe'', Text = ''Wer reitet''\<rparr>"
      "New ''name required to create poem''" Poem_zero PoemController_Create
      "Handle_opts (slog_Logger LevelInfo []) []"
      "\<lparr>store = NewStore, stderr = [], rand = (\<lambda>i. 0)\<rparr>"
      "\<lambda>b. (\<lparr>ID = [], Name = ''Erlkoenig'', Author = ''Goethe'', Text = b\<rparr>, None)"
      "\<lparr>Body = [], PathValues = Map.empty\<rparr>"
      "\<lparr>ID = [], Name = ''Erlkoenig'', Author = ''Goethe'', Text = []\<rparr>"
      "New ''text required to create poem''" Name
      "\<lparr>store = NewStore, stderr = [], rand = (\<lambda>i. 0)\<rparr>"]
    ValIn_validates_first [of ValidateToCreate
      "\<lparr>ID = [], Name = ''Erlkoenig'', Author = ''Goethe'', Text = ''Wer reitet''\<rparr>"
      "New ''name required to create poem''" Poem_zero PoemController_Create
      "Handle_opts (slog_Logger LevelInfo []) []"
      "\<lparr>store = NewStore, stderr = [], rand = (\<lambda>i. 0)\<rparr>"
      "\<lambda>b. (\<lparr>ID = [], Name = ''Erlkoenig'', Author = ''Goethe'', Text = b\<rparr>, None)"
      "\<lparr>Body = [], PathValues = Map.empty\<rparr>"
      "\<lparr>ID = [], Name = ''Erlkoenig'', Author = ''Goethe'', Text = []\<rparr>"
      "New ''text required to create poem''" Name
      "\<lparr>store = NewStore, stderr = [], rand = (\<lambda>i. 0)\<rparr>"]
  by (simp add: ValidateToCreate_def Errorf_required_def)

section \<open>Encoding failure\<close>

text \<open>
  C1. When decoder and business logic succeed with a status \<open>code\<close> from 200 to 999
  other than 204 and 304, and marshalling the output fails, the handler logs the failure
  and writes the encode-error message as the body, but the status line was sent before
  encoding: the response keeps the status \<open>code\<close> of the business logic and the JSON
  content type. The status 500 and the plain-text headers of \<^verbatim>\<open>http.Error\<close> come too
  late: its \<^verbatim>\<open>WriteHeader\<close> is the one superfluous call.
\<close>

theorem Handle_encode_failure:
  assumes "inFn r (Handle_opts dflt optFns) = (inp, None)"
    and "fn inp (Handle_opts dflt optFns) world = Inr ((out, code, None), world')"
    and "marshal out = Inl err"
    and "Log (Handle_opts dflt optFns) = Some l"
    and "200 \<le> code" and "code \<le> 999" and "code \<noteq> 204" and "code \<noteq> 304"
  shows "Handle dflt marshal inFn fn optFns NewResponseWriter r world =
           Inr (\<lparr>Header = [''Content-Type'' \<mapsto> ''text/plain; charset=utf-8'',
                            ''X-Content-Type-Options'' \<mapsto> ''nosniff''],
                  wroteHeader = True, status = code,
                  sentHeader = [''Content-Type'' \<mapsto> ''application/json''],
                  body = ''failed to encode response\<newline>'', superfluous = 1,
                  interim = []\<rparr>,
                Info l (''failed to encode response: '' @ Error err) [] world')"
  using assms
  by (simp add: Handle_fn_ok [where inp = inp and out = out and code = code and world' = world']
      IntoJSON_encode_failed)

theorem Handle_encode_failure_witness:
  "Handle (slog_Logger LevelInfo []) (\<lambda>x. Inl (New ''json: unsupported value: NaN'')) Empty
      (\<lambda>u opts world. Inr ((''NaN'', 200, None), world)) [] NewResponseWriter
      \<lparr>Body = [], PathValues = Map.empty\<rparr>
      \<lparr>store = \<lparr>poems = Map.empty\<rparr>, stderr = [], rand = (\<lambda>i. 0)\<rparr> =
   Inr (\<lparr>Header = [''Content-Type'' \<mapsto> ''text/plain; charset=utf-8'',
                    ''X-Content-Type-Options'' \<mapsto> ''nosniff''],
          wroteHeader = True, status = 200,
          sentHeader = [''Content-Type'' \<mapsto> ''application/json''],
          body = ''failed to encode response\<newline>'', superfluous = 1, interim = []\<rparr>,
        \<lparr>store = \<lparr>poems = Map.empty\<rparr>,
         stderr = [\<lparr>level = LevelInfo,
                    msg = ''failed to encode response: json: unsupported value: NaN'',
                    attrs = []\<rparr>],
         rand = (\<lambda>i. 0)\<rparr>)"
  using Handle_encode_failure [of Empty "\<lparr>Body = [], PathValues = Map.empty\<rparr>"
      "slog_Logger LevelInfo []" "[]" "()" "\<lambda>u opts world. Inr ((''NaN'', 200, None), world)"
      "\<lparr>store = \<lparr>poems = Map.empty\<rparr>, stderr = [], rand = (\<lambda>i. 0)\<rparr>"
      "''NaN''" 200 "\<lparr>store = \<lparr>poems = Map.empty\<rparr>, stderr = [], rand = (\<lambda>i. 0)\<rparr>"
      "\<lambda>x. Inl (New ''json: unsupported value: NaN'')" "New ''json: unsupported value: NaN''"
      "slog_Logger LevelInfo []"]
  by (simp add: Empty_def Handle_opts_def slog_Logger_def)

section \<open>The store\<close>

lemma Store_Add_keeps:
  assumes "poems s k = Some p"
  shows "poems (snd (Store_Add s q)) k = Some p"
  using assms by (auto simp: Store_Add_def split: option.split)

text \<open>
  C4. \<^verbatim>\<open>Store.Add\<close> returns the duplicate error exactly when the poem's identifier is
  a key of the store, and then the store is unchanged; otherwise it returns no error
  and the store holds the poem under its identifier. Either way every record the store
  held is still there under its key: nothing is overwritten.
\<close>

theorem Store_Add_duplicate_iff:
  "(fst (Store_Add s poem) = Some errDuplicate \<longleftrightarrow> ID poem \<in> dom (poems s)) \<and>
   (fst (Store_Add s poem) = None \<longleftrightarrow> ID poem \<notin> dom (poems s)) \<and>
   (ID poem \<in> dom (poems s) \<longrightarrow> Store_Add s poem = (Some errDuplicate, s)) \<and>
   (ID poem \<notin> dom (poems s) \<longrightarrow>
      Store_Add s poem = (None, s\<lparr>poems := (poems s)(ID poem \<mapsto> poem)\<rparr>)) \<and>
   (poems s k = Some p \<longrightarrow> poems (snd (Store_Add s poem)) k = Some p)"
  using Store_Add_keeps [of s k p poem]
  by (auto simp: Store_Add_def split: option.split)

theorem Store_Add_duplicate_iff_witness:
  "Store_Add \<lparr>poems = [''abc'' \<mapsto> \<lparr>ID = ''abc'', Name = ''n'', Author = ''a'', Text = ''t''\<rparr>]\<rparr>
       \<lparr>ID = ''abc'', Name = ''other'', Author = ''b'', Text = ''u''\<rparr> =
     (Some errDuplicate,
      \<lparr>poems = [''abc'' \<mapsto> \<lparr>ID = ''abc'', Name = ''n'', Author = ''a'', Text = ''t''\<rparr>]\<rparr>) \<and>
   Store_Add \<lparr>poems = [''abc'' \<mapsto> \<lparr>ID = ''abc'', Name = ''n'', Author = ''a'', Text = ''t''\<rparr>]\<rparr>
       \<lparr>ID = ''xyz'', Name = ''other'', Author = ''b'', Text = ''u''\<rparr> =
     (None,
      \<lparr>poems = [''abc'' \<mapsto> \<lparr>ID = ''abc'', Name = ''n'', Author = ''a'', Text = ''t''\<rparr>,
                ''xyz'' \<mapsto> \<lparr>ID = ''xyz'', Name = ''other'', Author = ''b'', Text = ''u''\<rparr>]\<rparr>) \<and>
   poems (snd (Store_Add
       \<lparr>poems = [''abc'' \<mapsto> \<lparr>ID = ''abc'', Name = ''n'', Author = ''a'', Text = ''t''\<rparr>]\<rparr>
       \<lparr>ID = ''xyz'', Name = ''other'', Author = ''b'', Text = ''u''\<rparr>)) ''abc'' =
     Some \<lparr>ID = ''abc'', Name = ''n'', Author = ''a'', Text = ''t''\<rparr>"
  using
    Store_Add_duplicate_iff [of
      "\<lparr>poems = [''abc'' \<mapsto> \<lparr>ID = ''abc'', Name = ''n'', Author = ''a'', Text = ''t''\<rparr>]\<rparr>"
      "\<lparr>ID = ''abc'', Name = ''other'', Author = ''b'', Text = ''u''\<rparr>" "''abc''"
      "\<lparr>ID = ''abc'', Name = ''n'', Author = ''a'', Text = ''t''\<rparr>"]
    Store_Add_duplicate_iff [of
      "\<lparr>poems = [''abc'' \<mapsto> \<lparr>ID = ''abc'', Name = ''n'', Author = ''a'', Text = ''t''\<rparr>]\<rparr>"
      "\<lparr>ID = ''xyz'', Name = ''other'', Author = ''b'', Text = ''u''\<rparr>" "''abc''"
      "\<lparr>ID = ''abc'', Name = ''n'', Author = ''a'', Text = ''t''\<rparr>"]
  by simp

lemma Store_Add_key_is_ID:
  assumes "\<forall>k p. poems s k = Some p \<longrightarrow> ID p = k"
    and "poems (snd (Store_Add s q)) k = Some p"
  shows "ID p = k"
  using assms by (auto simp: Store_Add_def split: option.splits if_splits)

lemma NewStore_abcdefghij:
  "\<exists>p. poems NewStore ''abcdefghij'' = Some p \<and> ID p = ''abcdefghi''"
  by (simp add: NewStore_def Store_mock_def)

lemma reachable_key_mismatch:
  assumes "reachable s"
  shows "\<exists>p. poems s ''abcdefghij'' = Some p \<and> ID p = ''abcdefghi''"
  using assms
proof induction
  case start
  show ?case by (rule NewStore_abcdefghij)
next
  case (add s poem)
  then show ?case by (auto intro: Store_Add_keeps)
qed

text \<open>
  C3. In the store that \<^verbatim>\<open>NewStore\<close> returns, the record under the key "abcdefghij"
  has the identifier "abcdefghi": identifier and key differ in the initial state (and,
  by the lemma before, in every reachable one). \<^verbatim>\<open>Store.Add\<close> itself stores every
  record under its identifier.
\<close>

theorem NewStore_key_mismatch:
  "map_option ID (poems NewStore ''abcdefghij'') = Some ''abcdefghi'' \<and>
   ''abcdefghi'' \<noteq> ''abcdefghij''"
  by (simp add: NewStore_def Store_mock_def)

section \<open>Creating a poem\<close>

lemma replicate_IDLength: "replicate IDLength c = [c, c, c, c, c, c, c, c, c, c]"
  by (simp add: IDLength_def numeral_eq_Suc)

lemma upt_IDLength: "[0..<IDLength] = [0, 1, 2, 3, 4, 5, 6, 7, 8, 9]"
  by (simp add: IDLength_def upt_rec)

lemma NewID_example_fst:
  "fst (NewID (\<lambda>i. 52 + (i + 1) mod 10)) = ''1234567890''"
  by (simp add: NewID_def replicate_IDLength upt_IDLength IDCharset_def rand_Intn_def)

lemma NewID_example0:
  "fst (NewID (\<lambda>i. 0)) = ''aaaaaaaaaa''"
  by (simp add: NewID_def replicate_IDLength upt_IDLength IDCharset_def rand_Intn_def)

lemma POST_poem_created:
  assumes "decode (Body r) = (p, None)" and "ValidateToCreate p = None"
    and "NewID (rand world) = (i, g)" and "poems (store world) i = None"
  shows "POST_poem enc decode NewResponseWriter r world =
           Inr (json_response 201 (enc (p\<lparr>ID := i\<rparr>)),
                world\<lparr>rand := g,
                  store := (store world)\<lparr>poems := (poems (store world))(i \<mapsto> p\<lparr>ID := i\<rparr>)\<rparr>\<rparr>)"
proof -
  have "ValIn Poem_zero PoemController_Create ValidateToCreate p
          (Handle_opts (slog_Logger LevelInfo []) [main_log ''POST'' ''/poem'']) world =
        Inr ((p\<lparr>ID := i\<rparr>, 201, None),
             world\<lparr>rand := g,
               store := (store world)\<lparr>poems := (poems (store world))(i \<mapsto> p\<lparr>ID := i\<rparr>)\<rparr>\<rparr>)"
    using assms
    by (simp add: ValIn_def PoemController_Create_def Store_Add_def StatusCreated_def Let_def)
  then show ?thesis
    using assms(1)
    by (simp add: POST_poem_def JSON_def IntoJSON_encoded
        Handle_fn_ok [where inp = p and out = "p\<lparr>ID := i\<rparr>" and code = 201])
qed

lemma POST_poem_collision:
  assumes "decode (Body r) = (p, None)" and "ValidateToCreate p = None"
    and "NewID (rand world) = (i, g)" and "poems (store world) i = Some q"
  shows "POST_poem enc decode NewResponseWriter r world =
           Inr (plain_text_response 500 ''internal error: could not create'',
                world\<lparr>rand := g,
                  stderr := stderr world @
                    [\<lparr>level = LevelDebug, msg = ''could not create poem'',
                      attrs = [Str ''method'', Str ''POST'', Str ''route'', Str ''/poem'',
                               Str ''error'', Err errDuplicate, Str ''poem'',
                               any_Poem (p\<lparr>ID := i\<rparr>)]\<rparr>]\<rparr>)"
proof -
  have "ValIn Poem_zero PoemController_Create ValidateToCreate p
          (Handle_opts (slog_Logger LevelInfo []) [main_log ''POST'' ''/poem'']) world =
        Inr ((p\<lparr>ID := i\<rparr>, 500, Some ErrCouldNotCreate),
             world\<lparr>rand := g,
                  stderr := stderr world @
                    [\<lparr>level = LevelDebug, msg = ''could not create poem'',
                      attrs = [Str ''method'', Str ''POST'', Str ''route'', Str ''/poem'',
                               Str ''error'', Err errDuplicate, Str ''poem'',
                               any_Poem (p\<lparr>ID := i\<rparr>)]\<rparr>]\<rparr>)"
    using assms
    by (simp add: ValIn_def PoemController_Create_def Store_Add_def Log_Debug_def Let_def
        Handle_opts_def main_log_def LogOpt_def slog_Logger_def
        StatusInternalServerError_def)
  then show ?thesis
    using assms(1)
    by (simp add: POST_poem_def JSON_def http_Error_New ErrCouldNotCreate_def
        Handle_fn_error [where inp = p and out = "p\<lparr>ID := i\<rparr>" and code = 500
          and err = ErrCouldNotCreate])
qed

lemma POST_poem_undecodable:
  assumes "decode (Body r) = (p, Some e)"
  shows "POST_poem enc decode NewResponseWriter r world =
           Inr (plain_text_response 400 ''failed to decode request'', world)"
  using assms
  by (simp add: POST_poem_def JSON_def http_Error_New ErrDecodeRequest_def StatusBadRequest_def
      Handle_inFn_error [where inp = p and err = ErrDecodeRequest])

lemma ValidateToCreate_None_iff:
  "ValidateToCreate p = None \<longleftrightarrow> Name p \<noteq> [] \<and> Author p \<noteq> [] \<and> Text p \<noteq> []"
  by (simp add: ValidateToCreate_def)

text \<open>
  C2, amended. For a POST /poem whose body decodes to a poem with non-empty name, author
  and text, let \<open>i\<close> be the identifier \<^verbatim>\<open>NewID\<close> draws from the random source. When
  \<open>i\<close> is not yet a key of the store, the response is 201 with the poem carrying \<open>i\<close>,
  and the store holds it under \<open>i\<close>. When \<open>i\<close> is already a key, the response is
  500 with "internal error: could not create", the store is unchanged and the collision
  is logged.
\<close>

theorem POST_poem_valid:
  assumes "decode (Body r) = (p, None)"
    and "Name p \<noteq> []" and "Author p \<noteq> []" and "Text p \<noteq> []"
    and "NewID (rand world) = (i, g)"
  shows "(i \<notin> dom (poems (store world)) \<longrightarrow>
           POST_poem enc decode NewResponseWriter r world =
             Inr (json_response 201 (enc (p\<lparr>ID := i\<rparr>)),
                  world\<lparr>rand := g,
                    store := (store world)
                      \<lparr>poems := (poems (store world))(i \<mapsto> p\<lparr>ID := i\<rparr>)\<rparr>\<rparr>)) \<and>
         (i \<in> dom (poems (store world)) \<longrightarrow>
           POST_poem enc decode NewResponseWriter r world =
             Inr (plain_text_response 500 ''internal error: could not create'',
                  world\<lparr>rand := g,
                    stderr := stderr world @
                      [\<lparr>level = LevelDebug, msg = ''could not create poem'',
                        attrs = [Str ''method'', Str ''POST'', Str ''route'', Str ''/poem'',
                                 Str ''error'', Err errDuplicate, Str ''poem'',
                                 any_Poem (p\<lparr>ID := i\<rparr>)]\<rparr>]\<rparr>))"
proof -
  have v: "ValidateToCreate p = None"
    using assms(2-4) by (simp add: ValidateToCreate_None_iff)
  show ?thesis
  proof (cases "poems (store world) i")
    case None
    then show ?thesis
      using assms(1,5) v
        POST_poem_created [where decode = decode and r = r and p = p and world = world
          and i = i and g = g and enc = enc]
      by (simp add: domIff)
  next
    case (Some q)
    then show ?thesis
      using assms(1,5) v
        POST_poem_collision [where decode = decode and r = r and p = p and world = world
          and i = i and g = g and enc = enc and q = q]
      by (simp add: domIff)
  qed
qed

text \<open>
  C2 as stated fails: the mock key "1234567890" is ten characters of the identifier
  alphabet, so the random source can produce it, and then a valid POST is answered 500.
\<close>

theorem POST_poem_valid_counterexample:
  "ValidateToCreate
       \<lparr>ID = [], Name = ''The Tyger'', Author = ''William Blake'', Text = ''Tyger Tyger''\<rparr> = None \<and>
   fst (NewID (\<lambda>i. 52 + (i + 1) mod 10)) = ''1234567890'' \<and>
   ''1234567890'' \<in> dom (poems NewStore) \<and>
   map_sum id (status \<circ> fst)
     (POST_poem Name (\<lambda>b. (\<lparr>ID = [], Name = ''The Tyger'', Author = ''William Blake'', Text = b\<rparr>, None))
        NewResponseWriter \<lparr>Body = ''Tyger Tyger'', PathValues = Map.empty\<rparr>
        \<lparr>store = NewStore, stderr = [], rand = (\<lambda>i. 52 + (i + 1) mod 10)\<rparr>) = Inr 500"
proof -
  let ?p = "\<lparr>ID = [], Name = ''The Tyger'', Author = ''William Blake'', Text = ''Tyger Tyger''\<rparr>"
  let ?g = "\<lambda>i::nat. 52 + (i + 1) mod 10"
  let ?w = "\<lparr>store = NewStore, stderr = [], rand = ?g\<rparr>"
  have v: "ValidateToCreate ?p = None"
    by (simp add: ValidateToCreate_def)
  have n: "NewID (rand ?w) = (''1234567890'', snd (NewID ?g))"
    using NewID_example_fst by (simp add: prod_eq_iff)
  obtain q where q: "poems (store ?w) ''1234567890'' = Some q"
    by (simp add: NewStore_def Store_mock_def)
  show ?thesis
    using v n q NewID_example_fst
      POST_poem_collision [where r = "\<lparr>Body = ''Tyger Tyger'', PathValues = Map.empty\<rparr>"
        and decode = "\<lambda>b. (\<lparr>ID = [], Name = ''The Tyger'', Author = ''William Blake'', Text = b\<rparr>, None)"
        and p = ?p and world = ?w and i = "''1234567890''" and g = "snd (NewID ?g)" and q = q
        and enc = Name]
    by (simp add: domIff)
qed

theorem POST_poem_valid_witness:
  "POST_poem Name (\<lambda>b. (\<lparr>ID = [], Name = ''The Tyger'', Author = ''William Blake'', Text = b\<rparr>, None))
      NewResponseWriter \<lparr>Body = ''Tyger Tyger'', PathValues = Map.empty\<rparr>
      \<lparr>store = NewStore, stderr = [], rand = (\<lambda>i. 0)\<rparr> =
     Inr (json_response 201 ''The Tyger'',
          \<lparr>store = NewStore\<lparr>poems := (poems NewStore)(''aaaaaaaaaa'' \<mapsto>
              \<lparr>ID = ''aaaaaaaaaa'', Name = ''The Tyger'', Author = ''William Blake'',
               Text = ''Tyger Tyger''\<rparr>)\<rparr>,
           stderr = [], rand = snd (NewID (\<lambda>i. 0))\<rparr>) \<and>
   POST_poem Name (\<lambda>b. (\<lparr>ID = [], Name = ''The Tyger'', Author = ''William Blake'', Text = b\<rparr>, None))
      NewResponseWriter \<lparr>Body = ''Tyger Tyger'', PathValues = Map.empty\<rparr>
      \<lparr>store = NewStore, stderr = [], rand = (\<lambda>i. 52 + (i + 1) mod 10)\<rparr> =
     Inr (plain_text_response 500 ''internal error: could not create'',
          \<lparr>store = NewStore,
           stderr = [\<lparr>level = LevelDebug, msg = ''could not create poem'',
                      attrs = [Str ''method'', Str ''POST'', Str ''route'', Str ''/poem'',
                               Str ''error'', Err errDuplicate, Str ''poem'',
                               Struct [(''ID'', ''1234567890''), (''Name'', ''The Tyger''),
                                       (''Author'', ''William Blake''), (''Text'', ''Tyger Tyger'')]]\<rparr>],
           rand = snd (NewID (\<lambda>i. 52 + (i + 1) mod 10))\<rparr>)"
  using
    POST_poem_valid [of
      "\<lambda>b. (\<lparr>ID = [], Name = ''The Tyger'', Author = ''William Blake'', Text = b\<rparr>, None)"
      "\<lparr>Body = ''Tyger Tyger'', PathValues = Map.empty\<rparr>"
      "\<lparr>ID = [], Name = ''The Tyger'', Author = ''William Blake'', Text = ''Tyger Tyger''\<rparr>"
      "\<lparr>store = NewStore, stderr = [], rand = (\<lambda>i. 0)\<rparr>"
      "''aaaaaaaaaa''" "snd (NewID (\<lambda>i. 0))" Name]
    POST_poem_valid [of
      "\<lambda>b. (\<lparr>ID = [], Name = ''The Tyger'', Author = ''William Blake'', Text = b\<rparr>, None)"
      "\<lparr>Body = ''Tyger Tyger'', PathValues = Map.empty\<rparr>"
      "\<lparr>ID = [], Name = ''The Tyger'', Author = ''William Blake'', Text = ''Tyger Tyger''\<rparr>"
      "\<lparr>store = NewStore, stderr = [], rand = (\<lambda>i. 52 + (i + 1) mod 10)\<rparr>"
      "''1234567890''" "snd (NewID (\<lambda>i. 52 + (i + 1) mod 10))" Name]
    NewID_example0 NewID_example_fst
  by (simp add: prod_eq_iff any_Poem_def NewStore_def Store_mock_def)

section \<open>Fetching a poem by identifier\<close>

lemma Handle_opts_main_log:
  "Handle_opts dflt [main_log method route] =
     \<lparr>Log = Some (slog_Logger LevelDebug [Str ''method'', Str method, Str ''route'', Str route])\<rparr>"
  by (simp add: Handle_opts_def main_log_def LogOpt_def)

lemma GET_poem_id_missing:
  assumes "poems (store world) (PathValue r ''id'') = None"
  shows "GET_poem_id enc NewResponseWriter r world =
           Inr (plain_text_response 404 ''poem(s) do(es) not exist'',
                world\<lparr>stderr := stderr world @
                  [\<lparr>level = LevelDebug, msg = ''requested non-existent poem'',
                    attrs = [Str ''method'', Str ''GET'', Str ''route'', Str ''/poem/{id}'',
                             Str ''id'', Str (PathValue r ''id'')]\<rparr>]\<rparr>)"
proof -
  have "PoemController_ByID (PathValue r ''id'')
          (Handle_opts (slog_Logger LevelInfo []) [main_log ''GET'' ''/poem/{id}'']) world =
        Inr ((Poem_zero, 404, Some ErrNotFound),
             world\<lparr>stderr := stderr world @
                  [\<lparr>level = LevelDebug, msg = ''requested non-existent poem'',
                    attrs = [Str ''method'', Str ''GET'', Str ''route'', Str ''/poem/{id}'',
                             Str ''id'', Str (PathValue r ''id'')]\<rparr>]\<rparr>)"
    using assms
    by (simp add: PoemController_ByID_def Store_Poem_def Log_Debug_def Handle_opts_main_log
        slog_Logger_def StatusNotFound_def)
  then show ?thesis
    by (simp add: GET_poem_id_def IDIn_def http_Error_New ErrNotFound_def
        Handle_fn_error [where inp = "PathValue r ''id''" and out = Poem_zero and code = 404
          and err = ErrNotFound])
qed

lemma GET_poem_id_found:
  assumes "poems (store world) (PathValue r ''id'') = Some p"
  shows "GET_poem_id enc NewResponseWriter r world = Inr (json_response 200 (enc p), world)"
proof -
  have "PoemController_ByID (PathValue r ''id'')
          (Handle_opts (slog_Logger LevelInfo []) [main_log ''GET'' ''/poem/{id}'']) world =
        Inr ((p, 200, None), world)"
    using assms by (simp add: PoemController_ByID_def Store_Poem_def StatusOK_def)
  then show ?thesis
    by (simp add: GET_poem_id_def IDIn_def IntoJSON_encoded
        Handle_fn_ok [where inp = "PathValue r ''id''" and out = p and code = 200])
qed

lemma POST_poem_201:
  assumes "POST_poem enc decode NewResponseWriter r world = Inr (w1, world1)"
    and "status w1 = 201"
  shows "\<exists>p. w1 = json_response 201 (enc p) \<and>
             poems (store world1) (fst (NewID (rand world))) = Some p"
proof -
  obtain p e where d: "decode (Body r) = (p, e)"
    by fastforce
  obtain i g where n: "NewID (rand world) = (i, g)"
    by fastforce
  show ?thesis
  proof (cases e)
    case (Some err)
    with d assms show ?thesis
      by (auto simp add: POST_poem_undecodable [where p = p and e = err])
  next
    case None
    note dec = d [unfolded None]
    show ?thesis
    proof (cases "ValidateToCreate p")
      case (Some verr)
      with dec assms show ?thesis
        by (auto simp add: POST_poem_invalid [where p = p and err = verr])
    next
      case v: None
      show ?thesis
      proof (cases "poems (store world) i")
        case (Some q)
        with dec v n assms show ?thesis
          by (auto simp add: POST_poem_collision [where p = p and i = i and g = g and q = q])
      next
        case None
        with dec v n assms show ?thesis
          by (auto simp add: POST_poem_created [where p = p and i = i and g = g])
      qed
    qed
  qed
qed

lemma Store_Add_other_key:
  assumes "ID q \<noteq> k"
  shows "poems (snd (Store_Add s q)) k = poems s k"
  using assms by (simp add: Store_Add_def split: option.split)

lemma Store_Adds_keeps:
  assumes "poems s k = Some p"
  shows "poems (Store_Adds s ps) k = Some p"
  using assms
proof (induction ps arbitrary: s)
  case Nil
  then show ?case by simp
next
  case (Cons q ps)
  from Cons.prems have "poems (snd (Store_Add s q)) k = Some p"
    by (rule Store_Add_keeps)
  then show ?case by (simp add: Cons.IH)
qed

lemma Store_Adds_absent:
  assumes "poems s k = None" and "\<forall>q \<in> set ps. ID q \<noteq> k"
  shows "poems (Store_Adds s ps) k = None"
  using assms
proof (induction ps arbitrary: s)
  case Nil
  then show ?case by simp
next
  case (Cons q ps)
  then have "poems (snd (Store_Add s q)) k = None"
    by (simp add: Store_Add_other_key)
  with Cons show ?case by simp
qed

lemma Store_Adds_snoc:
  "Store_Adds s (ps @ [p]) = snd (Store_Add (Store_Adds s ps) p)"
  by (induction ps arbitrary: s) simp_all

lemma reachable_iff_Store_Adds:
  "reachable s \<longleftrightarrow> (\<exists>ps. s = Store_Adds NewStore ps)"
proof
  assume "reachable s"
  then show "\<exists>ps. s = Store_Adds NewStore ps"
  proof induction
    case start
    have "NewStore = Store_Adds NewStore []" by simp
    then show ?case by blast
  next
    case (add s poem)
    then obtain ps where "s = Store_Adds NewStore ps" by blast
    then have "snd (Store_Add s poem) = Store_Adds NewStore (ps @ [poem])"
      by (simp add: Store_Adds_snoc)
    then show ?case by blast
  qed
next
  assume "\<exists>ps. s = Store_Adds NewStore ps"
  then obtain ps where s: "s = Store_Adds NewStore ps" by blast
  have "reachable (Store_Adds NewStore ps)"
  proof (induction ps rule: rev_induct)
    case Nil
    show ?case by (simp add: reachable.start)
  next
    case (snoc p ps)
    then show ?case by (simp add: Store_Adds_snoc reachable.add)
  qed
  with s show "reachable s" by simp
qed

text \<open>
  C6. GET /poem/{id} answers 404 with the not-found message when the store has no record
  under the identifier, and 200 with the stored record when it has one. Over the history
  of the store, from any store \<open>s0\<close> (\<^verbatim>\<open>NewStore\<close> at the start of the service) through
  any sequence \<open>ps\<close> of later \<^verbatim>\<open>Store.Add\<close> calls: when \<open>s0\<close> has no record under the
  identifier and no poem of \<open>ps\<close> carries it, the answer is 404; when \<open>s0\<close> has a record
  under it, the answer is 200 with that record. Round trip: after \<^verbatim>\<open>Store.Add\<close>
  accepted a poem, and whatever is added later, fetching its identifier answers 200 with
  that poem; and after POST /poem answered 201, and whatever is added later, fetching the
  identifier it drew answers 200 with the same body. An identifier here is the key a
  record is stored under.
\<close>

theorem GET_poem_id_round_trip:
  "(poems (store world) (PathValue r ''id'') = None \<longrightarrow>
      GET_poem_id enc NewResponseWriter r world =
        Inr (plain_text_response 404 ''poem(s) do(es) not exist'',
             world\<lparr>stderr := stderr world @
               [\<lparr>level = LevelDebug, msg = ''requested non-existent poem'',
                 attrs = [Str ''method'', Str ''GET'', Str ''route'', Str ''/poem/{id}'',
                          Str ''id'', Str (PathValue r ''id'')]\<rparr>]\<rparr>)) \<and>
   (poems (store world) (PathValue r ''id'') = Some p \<longrightarrow>
      GET_poem_id enc NewResponseWriter r world = Inr (json_response 200 (enc p), world)) \<and>
   (store world = Store_Adds s0 ps \<and> poems s0 (PathValue r ''id'') = None \<and>
    (\<forall>x \<in> set ps. ID x \<noteq> PathValue r ''id'') \<longrightarrow>
      GET_poem_id enc NewResponseWriter r world =
        Inr (plain_text_response 404 ''poem(s) do(es) not exist'',
             world\<lparr>stderr := stderr world @
               [\<lparr>level = LevelDebug, msg = ''requested non-existent poem'',
                 attrs = [Str ''method'', Str ''GET'', Str ''route'', Str ''/poem/{id}'',
                          Str ''id'', Str (PathValue r ''id'')]\<rparr>]\<rparr>)) \<and>
   (store world = Store_Adds s0 ps \<and> poems s0 (PathValue r ''id'') = Some p \<longrightarrow>
      GET_poem_id enc NewResponseWriter r world = Inr (json_response 200 (enc p), world)) \<and>
   (Store_Add s q = (None, s') \<and> store world = Store_Adds s' ps \<and>
    PathValue r ''id'' = ID q \<longrightarrow>
      GET_poem_id enc NewResponseWriter r world = Inr (json_response 200 (enc q), world)) \<and>
   (POST_poem enc decode NewResponseWriter rpost before = Inr (created, after) \<and>
    status created = 201 \<and> store world = Store_Adds (store after) ps \<and>
    PathValue r ''id'' = fst (NewID (rand before)) \<longrightarrow>
      GET_poem_id enc NewResponseWriter r world = Inr (created\<lparr>status := 200\<rparr>, world))"
proof (intro conjI impI)
  assume "poems (store world) (PathValue r ''id'') = None"
  then show "GET_poem_id enc NewResponseWriter r world =
        Inr (plain_text_response 404 ''poem(s) do(es) not exist'',
             world\<lparr>stderr := stderr world @
               [\<lparr>level = LevelDebug, msg = ''requested non-existent poem'',
                 attrs = [Str ''method'', Str ''GET'', Str ''route'', Str ''/poem/{id}'',
                          Str ''id'', Str (PathValue r ''id'')]\<rparr>]\<rparr>)"
    by (rule GET_poem_id_missing)
next
  assume "poems (store world) (PathValue r ''id'') = Some p"
  then show "GET_poem_id enc NewResponseWriter r world = Inr (json_response 200 (enc p), world)"
    by (rule GET_poem_id_found)
next
  assume "store world = Store_Adds s0 ps \<and> poems s0 (PathValue r ''id'') = None \<and>
    (\<forall>x \<in> set ps. ID x \<noteq> PathValue r ''id'')"
  then have "poems (store world) (PathValue r ''id'') = None"
    by (simp add: Store_Adds_absent)
  then show "GET_poem_id enc NewResponseWriter r world =
        Inr (plain_text_response 404 ''poem(s) do(es) not exist'',
             world\<lparr>stderr := stderr world @
               [\<lparr>level = LevelDebug, msg = ''requested non-existent poem'',
                 attrs = [Str ''method'', Str ''GET'', Str ''route'', Str ''/poem/{id}'',
                          Str ''id'', Str (PathValue r ''id'')]\<rparr>]\<rparr>)"
    by (rule GET_poem_id_missing)
next
  assume "store world = Store_Adds s0 ps \<and> poems s0 (PathValue r ''id'') = Some p"
  then have "poems (store world) (PathValue r ''id'') = Some p"
    by (simp add: Store_Adds_keeps)
  then show "GET_poem_id enc NewResponseWriter r world = Inr (json_response 200 (enc p), world)"
    by (rule GET_poem_id_found)
next
  assume a: "Store_Add s q = (None, s') \<and> store world = Store_Adds s' ps \<and>
    PathValue r ''id'' = ID q"
  then have "poems s' (ID q) = Some q"
    by (auto simp: Store_Add_def split: option.splits)
  with a have "poems (store world) (PathValue r ''id'') = Some q"
    by (simp add: Store_Adds_keeps)
  then show "GET_poem_id enc NewResponseWriter r world = Inr (json_response 200 (enc q), world)"
    by (rule GET_poem_id_found)
next
  assume a: "POST_poem enc decode NewResponseWriter rpost before = Inr (created, after) \<and>
    status created = 201 \<and> store world = Store_Adds (store after) ps \<and>
    PathValue r ''id'' = fst (NewID (rand before))"
  then obtain p' where p': "created = json_response 201 (enc p')"
      "poems (store after) (PathValue r ''id'') = Some p'"
    using POST_poem_201 [of enc decode rpost before created after] by auto
  from a p'(2) have "poems (store world) (PathValue r ''id'') = Some p'"
    by (simp add: Store_Adds_keeps)
  then show "GET_poem_id enc NewResponseWriter r world = Inr (created\<lparr>status := 200\<rparr>, world)"
    using GET_poem_id_found [of world r p' enc] p'(1) by simp
qed

theorem GET_poem_id_round_trip_witness:
  "Store_Adds \<lparr>poems = Map.empty\<rparr> [\<lparr>ID = ''isjzB57elf'', Name = ''Der Zauberlehrling'', Author = ''Goethe'', Text = ''Hat der alte Hexenmeister''\<rparr>] =
     \<lparr>poems = [''isjzB57elf'' \<mapsto> \<lparr>ID = ''isjzB57elf'', Name = ''Der Zauberlehrling'', Author = ''Goethe'', Text = ''Hat der alte Hexenmeister''\<rparr>]\<rparr> \<and>
   GET_poem_id Name NewResponseWriter \<lparr>Body = [], PathValues = [''id'' \<mapsto> ''aaaaaaaaaa'']\<rparr>
      \<lparr>store = \<lparr>poems = [''isjzB57elf'' \<mapsto> \<lparr>ID = ''isjzB57elf'', Name = ''Der Zauberlehrling'', Author = ''Goethe'', Text = ''Hat der alte Hexenmeister''\<rparr>]\<rparr>,
       stderr = [], rand = (\<lambda>i. 0)\<rparr> =
     Inr (plain_text_response 404 ''poem(s) do(es) not exist'',
          \<lparr>store = \<lparr>poems = [''isjzB57elf'' \<mapsto> \<lparr>ID = ''isjzB57elf'', Name = ''Der Zauberlehrling'', Author = ''Goethe'', Text = ''Hat der alte Hexenmeister''\<rparr>]\<rparr>,
       stderr = [\<lparr>level = LevelDebug, msg = ''requested non-existent poem'',
          attrs = [Str ''method'', Str ''GET'', Str ''route'', Str ''/poem/{id}'',
                   Str ''id'', Str ''aaaaaaaaaa'']\<rparr>],
       rand = (\<lambda>i. 0)\<rparr>) \<and>
   Store_Adds \<lparr>poems = [''isjzB57elf'' \<mapsto> \<lparr>ID = ''isjzB57elf'', Name = ''Der Zauberlehrling'', Author = ''Goethe'', Text = ''Hat der alte Hexenmeister''\<rparr>]\<rparr> [\<lparr>ID = ''aaaaaaaaaa'', Name = ''The Tyger'', Author = ''William Blake'', Text = ''Tyger Tyger''\<rparr>] =
     \<lparr>poems = [''isjzB57elf'' \<mapsto> \<lparr>ID = ''isjzB57elf'', Name = ''Der Zauberlehrling'', Author = ''Goethe'', Text = ''Hat der alte Hexenmeister''\<rparr>,
        ''aaaaaaaaaa'' \<mapsto> \<lparr>ID = ''aaaaaaaaaa'', Name = ''The Tyger'', Author = ''William Blake'', Text = ''Tyger Tyger''\<rparr>]\<rparr> \<and>
   GET_poem_id Name NewResponseWriter \<lparr>Body = [], PathValues = [''id'' \<mapsto> ''isjzB57elf'']\<rparr>
      \<lparr>store = \<lparr>poems = [''isjzB57elf'' \<mapsto> \<lparr>ID = ''isjzB57elf'', Name = ''Der Zauberlehrling'', Author = ''Goethe'', Text = ''Hat der alte Hexenmeister''\<rparr>,
        ''aaaaaaaaaa'' \<mapsto> \<lparr>ID = ''aaaaaaaaaa'', Name = ''The Tyger'', Author = ''William Blake'', Text = ''Tyger Tyger''\<rparr>]\<rparr>,
       stderr = [], rand = (\<lambda>i. 0)\<rparr> =
     Inr (json_response 200 ''Der Zauberlehrling'',
          \<lparr>store = \<lparr>poems = [''isjzB57elf'' \<mapsto> \<lparr>ID = ''isjzB57elf'', Name = ''Der Zauberlehrling'', Author = ''Goethe'', Text = ''Hat der alte Hexenmeister''\<rparr>,
        ''aaaaaaaaaa'' \<mapsto> \<lparr>ID = ''aaaaaaaaaa'', Name = ''The Tyger'', Author = ''William Blake'', Text = ''Tyger Tyger''\<rparr>]\<rparr>,
       stderr = [], rand = (\<lambda>i. 0)\<rparr>) \<and>
   POST_poem Name (\<lambda>b. (\<lparr>ID = [], Name = ''The Tyger'', Author = ''William Blake'', Text = b\<rparr>, None))
      NewResponseWriter \<lparr>Body = ''Tyger Tyger'', PathValues = Map.empty\<rparr>
      \<lparr>store = \<lparr>poems = [''isjzB57elf'' \<mapsto> \<lparr>ID = ''isjzB57elf'', Name = ''Der Zauberlehrling'', Author = ''Goethe'', Text = ''Hat der alte Hexenmeister''\<rparr>]\<rparr>,
       stderr = [], rand = (\<lambda>i. 0)\<rparr> =
     Inr (json_response 201 ''The Tyger'',
          \<lparr>store = \<lparr>poems = [''isjzB57elf'' \<mapsto> \<lparr>ID = ''isjzB57elf'', Name = ''Der Zauberlehrling'', Author = ''Goethe'', Text = ''Hat der alte Hexenmeister''\<rparr>,
        ''aaaaaaaaaa'' \<mapsto> \<lparr>ID = ''aaaaaaaaaa'', Name = ''The Tyger'', Author = ''William Blake'', Text = ''Tyger Tyger''\<rparr>]\<rparr>,
       stderr = [], rand = snd (NewID (\<lambda>i. 0))\<rparr>) \<and>
   GET_poem_id Name NewResponseWriter \<lparr>Body = [], PathValues = [''id'' \<mapsto> ''aaaaaaaaaa'']\<rparr>
      \<lparr>store = \<lparr>poems = [''isjzB57elf'' \<mapsto> \<lparr>ID = ''isjzB57elf'', Name = ''Der Zauberlehrling'', Author = ''Goethe'', Text = ''Hat der alte Hexenmeister''\<rparr>,
        ''aaaaaaaaaa'' \<mapsto> \<lparr>ID = ''aaaaaaaaaa'', Name = ''The Tyger'', Author = ''William Blake'', Text = ''Tyger Tyger''\<rparr>,
        ''abc123defx'' \<mapsto> \<lparr>ID = ''abc123defx'', Name = ''The Road Not Taken'', Author = ''Robert Frost'', Text = ''Two roads''\<rparr>]\<rparr>,
       stderr = [], rand = (\<lambda>i. 0)\<rparr> =
     Inr (json_response 200 ''The Tyger'',
          \<lparr>store = \<lparr>poems = [''isjzB57elf'' \<mapsto> \<lparr>ID = ''isjzB57elf'', Name = ''Der Zauberlehrling'', Author = ''Goethe'', Text = ''Hat der alte Hexenmeister''\<rparr>,
        ''aaaaaaaaaa'' \<mapsto> \<lparr>ID = ''aaaaaaaaaa'', Name = ''The Tyger'', Author = ''William Blake'', Text = ''Tyger Tyger''\<rparr>,
        ''abc123defx'' \<mapsto> \<lparr>ID = ''abc123defx'', Name = ''The Road Not Taken'', Author = ''Robert Frost'', Text = ''Two roads''\<rparr>]\<rparr>,
       stderr = [], rand = (\<lambda>i. 0)\<rparr>)"
proof -
  let ?P0 = "\<lparr>ID = ''isjzB57elf'', Name = ''Der Zauberlehrling'', Author = ''Goethe'', Text = ''Hat der alte Hexenmeister''\<rparr>"
  let ?PT = "\<lparr>ID = ''aaaaaaaaaa'', Name = ''The Tyger'', Author = ''William Blake'', Text = ''Tyger Tyger''\<rparr>"
  let ?P3 = "\<lparr>ID = ''abc123defx'', Name = ''The Road Not Taken'', Author = ''Robert Frost'', Text = ''Two roads''\<rparr>"
  let ?E = "\<lparr>poems = Map.empty\<rparr>"
  let ?S0 = "\<lparr>poems = [''isjzB57elf'' \<mapsto> ?P0]\<rparr>"
  let ?S1 = "\<lparr>poems = [''isjzB57elf'' \<mapsto> ?P0, ''aaaaaaaaaa'' \<mapsto> ?PT]\<rparr>"
  let ?S2 = "\<lparr>poems = [''isjzB57elf'' \<mapsto> ?P0, ''aaaaaaaaaa'' \<mapsto> ?PT,
                        ''abc123defx'' \<mapsto> ?P3]\<rparr>"
  let ?W0 = "\<lparr>store = ?S0, stderr = [], rand = (\<lambda>i. 0)\<rparr>"
  let ?W1 = "\<lparr>store = ?S1, stderr = [], rand = snd (NewID (\<lambda>i. 0))\<rparr>"
  let ?W2 = "\<lparr>store = ?S1, stderr = [], rand = (\<lambda>i. 0)\<rparr>"
  let ?W3 = "\<lparr>store = ?S2, stderr = [], rand = (\<lambda>i. 0)\<rparr>"
  let ?dec = "\<lambda>b. (\<lparr>ID = [], Name = ''The Tyger'', Author = ''William Blake'', Text = b\<rparr>, None)"
  let ?rp = "\<lparr>Body = ''Tyger Tyger'', PathValues = Map.empty\<rparr>"
  let ?rA = "\<lparr>Body = [], PathValues = [''id'' \<mapsto> ''aaaaaaaaaa'']\<rparr>"
  let ?rB = "\<lparr>Body = [], PathValues = [''id'' \<mapsto> ''isjzB57elf'']\<rparr>"
  have n: "NewID (rand ?W0) = (''aaaaaaaaaa'', snd (NewID (\<lambda>i. 0)))"
    using NewID_example0 by (simp add: prod_eq_iff)
  have post: "POST_poem Name ?dec NewResponseWriter ?rp ?W0 =
                Inr (json_response 201 ''The Tyger'', ?W1)"
    using n POST_poem_created [where decode = ?dec and r = ?rp and world = ?W0
        and i = "''aaaaaaaaaa''" and g = "snd (NewID (\<lambda>i. 0))" and enc = Name
        and p = "\<lparr>ID = [], Name = ''The Tyger'', Author = ''William Blake'',
                  Text = ''Tyger Tyger''\<rparr>"]
    by (simp add: ValidateToCreate_def)
  have h0: "Store_Adds ?E [?P0] = ?S0"
    by (simp add: Store_Add_def)
  have h1: "Store_Adds ?S0 [?PT] = ?S1"
    by (simp add: Store_Add_def)
  have h2: "Store_Adds ?S1 [?P3] = ?S2"
    by (simp add: Store_Add_def)
  have add: "Store_Add ?E ?P0 = (None, ?S0)"
    by (simp add: Store_Add_def)
  have never: "GET_poem_id Name NewResponseWriter ?rA ?W0 =
      Inr (plain_text_response 404 ''poem(s) do(es) not exist'',
           ?W0\<lparr>stderr := stderr ?W0 @
             [\<lparr>level = LevelDebug, msg = ''requested non-existent poem'',
               attrs = [Str ''method'', Str ''GET'', Str ''route'', Str ''/poem/{id}'',
                        Str ''id'', Str (PathValue ?rA ''id'')]\<rparr>]\<rparr>)"
    using h0
      GET_poem_id_round_trip [where world = ?W0 and r = ?rA and enc = Name
        and ?s0.0 = ?E and ps = "[?P0]", THEN conjunct2, THEN conjunct2, THEN conjunct1]
    by (simp add: PathValue_def)
  have kept: "GET_poem_id Name NewResponseWriter ?rB ?W2 =
      Inr (json_response 200 (Name ?P0), ?W2)"
    using h1 add
      GET_poem_id_round_trip [where world = ?W2 and r = ?rB and enc = Name
        and s = ?E and q = ?P0 and s' = ?S0 and ps = "[?PT]",
        THEN conjunct2, THEN conjunct2, THEN conjunct2, THEN conjunct2, THEN conjunct1]
    by (simp add: PathValue_def)
  have kept': "GET_poem_id Name NewResponseWriter ?rB ?W2 =
      Inr (json_response 200 (Name ?P0), ?W2)"
    using h1
      GET_poem_id_round_trip [where world = ?W2 and r = ?rB and enc = Name
        and ?s0.0 = ?S0 and p = ?P0 and ps = "[?PT]",
        THEN conjunct2, THEN conjunct2, THEN conjunct2, THEN conjunct1]
    by (simp add: PathValue_def)
  have now: "GET_poem_id Name NewResponseWriter ?rB ?W2 =
      Inr (json_response 200 (Name ?P0), ?W2)"
    using GET_poem_id_round_trip [where world = ?W2 and r = ?rB and enc = Name and p = ?P0,
        THEN conjunct2, THEN conjunct1]
    by (simp add: PathValue_def)
  have absent: "GET_poem_id Name NewResponseWriter ?rA ?W0 =
      Inr (plain_text_response 404 ''poem(s) do(es) not exist'',
           ?W0\<lparr>stderr := stderr ?W0 @
             [\<lparr>level = LevelDebug, msg = ''requested non-existent poem'',
               attrs = [Str ''method'', Str ''GET'', Str ''route'', Str ''/poem/{id}'',
                        Str ''id'', Str (PathValue ?rA ''id'')]\<rparr>]\<rparr>)"
    using GET_poem_id_round_trip [where world = ?W0 and r = ?rA and enc = Name,
        THEN conjunct1]
    by (simp add: PathValue_def)
  have trip: "GET_poem_id Name NewResponseWriter ?rA ?W3 =
      Inr ((json_response 201 ''The Tyger'')\<lparr>status := 200\<rparr>, ?W3)"
    using post h2 NewID_example0
      GET_poem_id_round_trip [where world = ?W3 and r = ?rA and enc = Name
        and decode = ?dec and rpost = ?rp and before = ?W0
        and created = "json_response 201 ''The Tyger''" and after = ?W1 and ps = "[?P3]",
        THEN conjunct2, THEN conjunct2, THEN conjunct2, THEN conjunct2, THEN conjunct2]
    by (simp add: PathValue_def)
  show ?thesis
    using h0 h1 post never absent kept kept' now trip
    by (simp add: PathValue_def)
qed

section \<open>Listing poems by author\<close>

lemma set_PoemsByAuthor_loop:
  "set (PoemsByAuthor_loop m a ks ps) =
     set ps \<union> {p. \<exists>k \<in> set ks. m k = Some p \<and> Author p = a}"
  by (induction ks arbitrary: ps) (auto split: option.splits)

lemma length_PoemsByAuthor_loop:
  "length (PoemsByAuthor_loop m a ks ps) =
     length ps + length (filter (\<lambda>k. \<exists>p. m k = Some p \<and> Author p = a) ks)"
  by (induction ks arbitrary: ps) (auto split: option.splits)

lemma set_Store_PoemsByAuthor:
  assumes "range_order (poems s) ks"
  shows "set (Store_PoemsByAuthor ks s a) = {p. \<exists>k. poems s k = Some p \<and> Author p = a}"
  using assms
  by (auto simp: Store_PoemsByAuthor_def set_PoemsByAuthor_loop range_order_def)

lemma length_Store_PoemsByAuthor:
  assumes "range_order (poems s) ks"
  shows "length (Store_PoemsByAuthor ks s a) = card {k. \<exists>p. poems s k = Some p \<and> Author p = a}"
proof -
  have "{k. \<exists>p. poems s k = Some p \<and> Author p = a} =
        {k. \<exists>p. poems s k = Some p \<and> Author p = a} \<inter> set ks"
    using assms by (auto simp: range_order_def)
  then show ?thesis
    using assms
    by (simp add: Store_PoemsByAuthor_def length_PoemsByAuthor_loop range_order_def
        distinct_length_filter)
qed

lemma GET_poems_author_none:
  assumes "Store_PoemsByAuthor ks (store world) (PathValue r ''author'') = []"
  shows "GET_poems_author encs ks NewResponseWriter r world =
           Inr (plain_text_response 404 ''the requested author does not exist'',
                world\<lparr>stderr := stderr world @
                  [\<lparr>level = LevelDebug, msg = ''no poems found for author'',
                    attrs = [Str ''method'', Str ''GET'', Str ''route'',
                             Str ''/poems/author/{author}'',
                             Str ''author'', Str (PathValue r ''author'')]\<rparr>]\<rparr>)"
proof -
  have "PoemController_ByAuthor ks (PathValue r ''author'')
          (Handle_opts (slog_Logger LevelInfo []) [main_log ''GET'' ''/poems/author/{author}''])
          world =
        Inr (([], 404, Some ErrAuthorNotFound),
             world\<lparr>stderr := stderr world @
                  [\<lparr>level = LevelDebug, msg = ''no poems found for author'',
                    attrs = [Str ''method'', Str ''GET'', Str ''route'',
                             Str ''/poems/author/{author}'',
                             Str ''author'', Str (PathValue r ''author'')]\<rparr>]\<rparr>)"
    using assms
    by (simp add: PoemController_ByAuthor_def Log_Debug_def Handle_opts_main_log
        slog_Logger_def StatusNotFound_def)
  then show ?thesis
    by (simp add: GET_poems_author_def PathVal_def http_Error_New ErrAuthorNotFound_def
        Handle_fn_error [where inp = "PathValue r ''author''" and out = "[]" and code = 404
          and err = ErrAuthorNotFound])
qed

lemma GET_poems_author_some:
  assumes "Store_PoemsByAuthor ks (store world) (PathValue r ''author'') \<noteq> []"
  shows "GET_poems_author encs ks NewResponseWriter r world =
           Inr (json_response 200
                  (encs (Store_PoemsByAuthor ks (store world) (PathValue r ''author''))),
                world)"
proof -
  have "PoemController_ByAuthor ks (PathValue r ''author'')
          (Handle_opts (slog_Logger LevelInfo []) [main_log ''GET'' ''/poems/author/{author}''])
          world =
        Inr ((Store_PoemsByAuthor ks (store world) (PathValue r ''author''), 200, None), world)"
    using assms by (simp add: PoemController_ByAuthor_def StatusOK_def)
  then show ?thesis
    by (simp add: GET_poems_author_def PathVal_def IntoJSON_encoded
        Handle_fn_ok [where inp = "PathValue r ''author''"
          and out = "Store_PoemsByAuthor ks (store world) (PathValue r ''author'')"
          and code = 200])
qed

text \<open>
  C7. Whatever order \<^verbatim>\<open>range\<close> visits the store in: \<^verbatim>\<open>Store.PoemsByAuthor\<close> returns
  exactly the records whose author is the given string, one per matching key; it returns
  the empty list, and has no error to return, when none matches. GET
  /poems/author/{author} answers 404 with the author-not-found message when no record has
  the author, and otherwise 200 with the encoding of that list.
\<close>

theorem GET_poems_author_matching:
  assumes "range_order (poems (store world)) ks"
  shows "set (Store_PoemsByAuthor ks (store world) a) =
           {p. \<exists>k. poems (store world) k = Some p \<and> Author p = a} \<and>
         length (Store_PoemsByAuthor ks (store world) a) =
           card {k. \<exists>p. poems (store world) k = Some p \<and> Author p = a} \<and>
         ((\<forall>k p. poems (store world) k = Some p \<longrightarrow> Author p \<noteq> PathValue r ''author'') \<longrightarrow>
            Store_PoemsByAuthor ks (store world) (PathValue r ''author'') = [] \<and>
            GET_poems_author encs ks NewResponseWriter r world =
              Inr (plain_text_response 404 ''the requested author does not exist'',
                   world\<lparr>stderr := stderr world @
                     [\<lparr>level = LevelDebug, msg = ''no poems found for author'',
                       attrs = [Str ''method'', Str ''GET'', Str ''route'',
                                Str ''/poems/author/{author}'',
                                Str ''author'', Str (PathValue r ''author'')]\<rparr>]\<rparr>)) \<and>
         ((\<exists>k p. poems (store world) k = Some p \<and> Author p = PathValue r ''author'') \<longrightarrow>
            GET_poems_author encs ks NewResponseWriter r world =
              Inr (json_response 200
                     (encs (Store_PoemsByAuthor ks (store world) (PathValue r ''author''))),
                   world))"
proof -
  let ?a = "PathValue r ''author''"
  let ?ps = "Store_PoemsByAuthor ks (store world) ?a"
  have s: "set ?ps = {p. \<exists>k. poems (store world) k = Some p \<and> Author p = ?a}"
    using assms by (rule set_Store_PoemsByAuthor)
  have none: "?ps = []" if "\<forall>k p. poems (store world) k = Some p \<longrightarrow> Author p \<noteq> ?a"
  proof -
    from that s have "set ?ps = {}" by auto
    then show ?thesis by simp
  qed
  have some: "?ps \<noteq> []" if "\<exists>k p. poems (store world) k = Some p \<and> Author p = ?a"
  proof -
    from that s have "set ?ps \<noteq> {}" by auto
    then show ?thesis by auto
  qed
  show ?thesis
    using set_Store_PoemsByAuthor [OF assms, of a] length_Store_PoemsByAuthor [OF assms, of a]
      none some GET_poems_author_none [of ks world r encs]
      GET_poems_author_some [of ks world r encs]
    by (intro conjI impI) simp_all
qed

theorem GET_poems_author_matching_witness:
  "range_order
     (poems \<lparr>poems = [''goethe0001'' \<mapsto> \<lparr>ID = ''goethe0001'', Name = ''Erlkoenig'', Author = ''Goethe'', Text = ''Wer reitet''\<rparr>,
                      ''frost00001'' \<mapsto> \<lparr>ID = ''frost00001'', Name = ''Road'', Author = ''Robert Frost'', Text = ''Two roads''\<rparr>,
                      ''goethe0002'' \<mapsto> \<lparr>ID = ''goethe0002'', Name = ''Zauberlehrling'', Author = ''Goethe'', Text = ''Hat der alte''\<rparr>]\<rparr>)
     [''goethe0002'', ''frost00001'', ''goethe0001''] \<and>
   GET_poems_author (\<lambda>ps. concat (map Name ps)) [''goethe0002'', ''frost00001'', ''goethe0001'']
      NewResponseWriter \<lparr>Body = [], PathValues = [''author'' \<mapsto> ''Goethe'']\<rparr>
      \<lparr>store = \<lparr>poems = [''goethe0001'' \<mapsto> \<lparr>ID = ''goethe0001'', Name = ''Erlkoenig'', Author = ''Goethe'', Text = ''Wer reitet''\<rparr>,
                          ''frost00001'' \<mapsto> \<lparr>ID = ''frost00001'', Name = ''Road'', Author = ''Robert Frost'', Text = ''Two roads''\<rparr>,
                          ''goethe0002'' \<mapsto> \<lparr>ID = ''goethe0002'', Name = ''Zauberlehrling'', Author = ''Goethe'', Text = ''Hat der alte''\<rparr>]\<rparr>,
       stderr = [], rand = (\<lambda>i. 0)\<rparr> =
     Inr (json_response 200 ''ZauberlehrlingErlkoenig'',
          \<lparr>store = \<lparr>poems = [''goethe0001'' \<mapsto> \<lparr>ID = ''goethe0001'', Name = ''Erlkoenig'', Author = ''Goethe'', Text = ''Wer reitet''\<rparr>,
                              ''frost00001'' \<mapsto> \<lparr>ID = ''frost00001'', Name = ''Road'', Author = ''Robert Frost'', Text = ''Two roads''\<rparr>,
                              ''goethe0002'' \<mapsto> \<lparr>ID = ''goethe0002'', Name = ''Zauberlehrling'', Author = ''Goethe'', Text = ''Hat der alte''\<rparr>]\<rparr>,
           stderr = [], rand = (\<lambda>i. 0)\<rparr>) \<and>
   GET_poems_author (\<lambda>ps. concat (map Name ps)) [''goethe0002'', ''frost00001'', ''goethe0001'']
      NewResponseWriter \<lparr>Body = [], PathValues = [''author'' \<mapsto> ''Schiller'']\<rparr>
      \<lparr>store = \<lparr>poems = [''goethe0001'' \<mapsto> \<lparr>ID = ''goethe0001'', Name = ''Erlkoenig'', Author = ''Goethe'', Text = ''Wer reitet''\<rparr>,
                          ''frost00001'' \<mapsto> \<lparr>ID = ''frost00001'', Name = ''Road'', Author = ''Robert Frost'', Text = ''Two roads''\<rparr>,
                          ''goethe0002'' \<mapsto> \<lparr>ID = ''goethe0002'', Name = ''Zauberlehrling'', Author = ''Goethe'', Text = ''Hat der alte''\<rparr>]\<rparr>,
       stderr = [], rand = (\<lambda>i. 0)\<rparr> =
     Inr (plain_text_response 404 ''the requested author does not exist'',
          \<lparr>store = \<lparr>poems = [''goethe0001'' \<mapsto> \<lparr>ID = ''goethe0001'', Name = ''Erlkoenig'', Author = ''Goethe'', Text = ''Wer reitet''\<rparr>,
                              ''frost00001'' \<mapsto> \<lparr>ID = ''frost00001'', Name = ''Road'', Author = ''Robert Frost'', Text = ''Two roads''\<rparr>,
                              ''goethe0002'' \<mapsto> \<lparr>ID = ''goethe0002'', Name = ''Zauberlehrling'', Author = ''Goethe'', Text = ''Hat der alte''\<rparr>]\<rparr>,
           stderr = [\<lparr>level = LevelDebug, msg = ''no poems found for author'',
                      attrs = [Str ''method'', Str ''GET'', Str ''route'',
                               Str ''/poems/author/{author}'', Str ''author'', Str ''Schiller'']\<rparr>],
           rand = (\<lambda>i. 0)\<rparr>)"
proof -
  let ?S = "\<lparr>poems = [''goethe0001'' \<mapsto> \<lparr>ID = ''goethe0001'', Name = ''Erlkoenig'', Author = ''Goethe'', Text = ''Wer reitet''\<rparr>,
                      ''frost00001'' \<mapsto> \<lparr>ID = ''frost00001'', Name = ''Road'', Author = ''Robert Frost'', Text = ''Two roads''\<rparr>,
                      ''goethe0002'' \<mapsto> \<lparr>ID = ''goethe0002'', Name = ''Zauberlehrling'', Author = ''Goethe'', Text = ''Hat der alte''\<rparr>]\<rparr>"
  let ?W = "\<lparr>store = ?S, stderr = [], rand = (\<lambda>i. 0)\<rparr>"
  let ?ks = "[''goethe0002'', ''frost00001'', ''goethe0001'']"
  have ro: "range_order (poems (store ?W)) ?ks"
    by (auto simp: range_order_def)
  have ex: "\<exists>k p. poems (store ?W) k = Some p \<and>
      Author p = PathValue \<lparr>Body = [], PathValues = [''author'' \<mapsto> ''Goethe'']\<rparr> ''author''"
    by (rule exI [of _ "''goethe0001''"]) (simp add: PathValue_def)
  have no: "\<forall>k p. poems (store ?W) k = Some p \<longrightarrow>
      Author p \<noteq> PathValue \<lparr>Body = [], PathValues = [''author'' \<mapsto> ''Schiller'']\<rparr> ''author''"
    by (auto simp: PathValue_def split: if_splits)
  have ps: "Store_PoemsByAuthor ?ks ?S ''Goethe'' =
      [\<lparr>ID = ''goethe0002'', Name = ''Zauberlehrling'', Author = ''Goethe'', Text = ''Hat der alte''\<rparr>,
       \<lparr>ID = ''goethe0001'', Name = ''Erlkoenig'', Author = ''Goethe'', Text = ''Wer reitet''\<rparr>]"
    by (simp add: Store_PoemsByAuthor_def)
  show ?thesis
    using ro ps
      GET_poems_author_matching [OF ro, THEN conjunct2, THEN conjunct2, THEN conjunct2,
        THEN mp, OF ex, of "\<lambda>ps. concat (map Name ps)"]
      GET_poems_author_matching [OF ro, THEN conjunct2, THEN conjunct2, THEN conjunct1,
        THEN mp, OF no, of "\<lambda>ps. concat (map Name ps)"]
    by (simp add: PathValue_def)
qed

end
